theory Spec2Isabelle
  imports Complex_Main
begin

section \<open>The turn-based combat engine of game/combat.py\<close>

text \<open>
  A shallow embedding of \<^verbatim>\<open>CombatSystem\<close> and its nested \<^verbatim>\<open>Enemy\<close> class.
  Mutation of \<^verbatim>\<open>self\<close>, of the enemy object and of the shared player dict is explicit
  state passing; every exception the Python raises is an \<open>Inl\<close> result; every call of
  \<^verbatim>\<open>random\<close> takes its outcome from an explicit record of draws. A Python number is a
  rational; every float operation rounds its operands and its result to the nearest
  double, and \<^verbatim>\<open>int(x)\<close> is truncation towards zero.
\<close>

subsection \<open>Enumerations, errors and numbers\<close>

datatype CombatState = ACTIVE | PLAYER_TURN | ENEMY_TURN | VICTORY | DEFEAT | FLEE

datatype DamageType = PHYSICAL | FIRE | ICE | LIGHTNING | POISON | HOLY | DARK | TRUE

text \<open>The exceptions the combat code can raise.\<close>

datatype error = AttributeError | KeyError | TypeError | ZeroDivisionError | ValueError

text \<open>\<^verbatim>\<open>DamageType.X.value\<close>: the lower-case string of each member.\<close>

fun DamageType_value :: "DamageType \<Rightarrow> string" where
  "DamageType_value PHYSICAL = ''physical''"
| "DamageType_value FIRE = ''fire''"
| "DamageType_value ICE = ''ice''"
| "DamageType_value LIGHTNING = ''lightning''"
| "DamageType_value POISON = ''poison''"
| "DamageType_value HOLY = ''holy''"
| "DamageType_value DARK = ''dark''"
| "DamageType_value TRUE = ''true''"

text \<open>\<^verbatim>\<open>DamageType[NAME]\<close>: lookup by member name, \<^verbatim>\<open>KeyError\<close> when there is none.\<close>

definition DamageType_by_name :: "string \<Rightarrow> DamageType option" where
  "DamageType_by_name =
     map_of [(''PHYSICAL'', PHYSICAL), (''FIRE'', FIRE), (''ICE'', ICE),
             (''LIGHTNING'', LIGHTNING), (''POISON'', POISON), (''HOLY'', HOLY),
             (''DARK'', DARK), (''TRUE'', TRUE)]"

text \<open>\<^verbatim>\<open>str.upper()\<close> and \<^verbatim>\<open>str.lower()\<close> on ASCII letters (the catalogues hold nothing else).\<close>

definition lower_letters :: string where
  "lower_letters = ''abcdefghijklmnopqrstuvwxyz''"

definition upper_letters :: string where
  "upper_letters = ''ABCDEFGHIJKLMNOPQRSTUVWXYZ''"

definition upper :: "string \<Rightarrow> string" where
  "upper s = map (\<lambda>c. case map_of (zip lower_letters upper_letters) c of
                         Some u \<Rightarrow> u | None \<Rightarrow> c) s"

definition lower :: "string \<Rightarrow> string" where
  "lower s = map (\<lambda>c. case map_of (zip upper_letters lower_letters) c of
                         Some l \<Rightarrow> l | None \<Rightarrow> c) s"

text \<open>\<^verbatim>\<open>int(x)\<close> on a float: truncation towards zero.\<close>

definition py_int :: "rat \<Rightarrow> int" where
  "py_int x = (if 0 \<le> x then \<lfloor>x\<rfloor> else \<lceil>x\<rceil>)"

subsection \<open>Float arithmetic\<close>

text \<open>
  Python's \<^verbatim>\<open>float\<close> is the IEEE 754 double: 53 significant bits, the unit in the last
  place no finer than \<open>2 powi (- 1074)\<close>, results rounded to the nearest double and a tie
  to the one with an even significand.

  \<open>rhe\<close> rounds a rational to the nearest integer, a half to the even one.
\<close>

definition rhe :: "rat \<Rightarrow> int" where
  "rhe y = (let f = \<lfloor>y\<rfloor>; d = y - of_int f
            in if d < 1/2 then f else if 1/2 < d then f + 1 else if even f then f else f + 1)"

text \<open>
  The exponent \<open>q\<close> of the unit in the last place of a double of magnitude \<open>a\<close>: the least
  \<open>q\<close> from \<open>- 1074\<close> on with \<open>a < 2 powi (q + 53)\<close>, searched upwards and no
  further than \<open>971\<close>, the exponent of the largest doubles.
\<close>

fun find_exp :: "nat \<Rightarrow> rat \<Rightarrow> int \<Rightarrow> int" where
  "find_exp 0 a q = q"
| "find_exp (Suc k) a q = (if a < 2 powi (q + 53) then q else find_exp k a (q + 1))"

definition ulp_exp :: "rat \<Rightarrow> int" where
  "ulp_exp a = find_exp 2045 a (- 1074)"

text \<open>
  \<open>fl x\<close> is the double nearest to \<open>x\<close>: the value of the float literal written \<open>x\<close>, of
  \<^verbatim>\<open>float(x)\<close> for an int \<open>x\<close>, and \<open>x\<close> itself when \<open>x\<close> is a double. A result of
  magnitude \<open>2 ^ 1024\<close> or more stands for an overflow (\<^verbatim>\<open>inf\<close>, or the \<^verbatim>\<open>OverflowError\<close>
  of converting an int); \<open>finite_double\<close> says that there is none.
\<close>

definition fl :: "rat \<Rightarrow> rat" where
  "fl x = (let q = ulp_exp \<bar>x\<bar> in of_int (rhe (x / 2 powi q)) * 2 powi q)"

definition finite_double :: "rat \<Rightarrow> bool" where
  "finite_double x = (\<bar>fl x\<bar> < 2 ^ 1024)"

text \<open>\<^verbatim>\<open>x * y\<close> and \<^verbatim>\<open>x + y\<close> where at least one operand is a float.\<close>

definition fmul :: "rat \<Rightarrow> rat \<Rightarrow> rat" where
  "fmul x y = fl (fl x * fl y)"

definition fadd :: "rat \<Rightarrow> rat \<Rightarrow> rat" where
  "fadd x y = fl (fl x + fl y)"

subsection \<open>Catalogue entries\<close>

text \<open>
  An entry of \<^verbatim>\<open>self.abilities\<close>. Only the keys the resolver reads are kept; a key
  read through \<^verbatim>\<open>.get\<close> is an option. Every entry of the catalogue has
  \<^verbatim>\<open>name\<close>, \<^verbatim>\<open>damage_mult\<close> and \<^verbatim>\<open>accuracy\<close>. Here and in the other tables a
  float literal is kept as the decimal it is written as (0.8 is \<open>4/5\<close>); the operations
  round it.
\<close>

record ability =
  a_name :: string
  damage_mult :: "rat option"
  accuracy :: "int option"
  damage_type :: "string option"
  effect :: "string option"
  self_effect :: "string option"
  lifesteal :: "rat option"
  duration :: "int option"
  effect_power :: "rat option"

definition mk_ability :: "string \<Rightarrow> rat \<Rightarrow> int \<Rightarrow> ability" where
  "mk_ability n m a =
     \<lparr>a_name = n, damage_mult = Some m, accuracy = Some a, damage_type = None,
      effect = None, self_effect = None, lifesteal = None, duration = None,
      effect_power = None\<rparr>"

text \<open>\<^verbatim>\<open>setup_combat_abilities\<close>: the table \<^verbatim>\<open>self.abilities\<close>.\<close>

definition abilities_table :: "(string \<times> ability) list" where
  "abilities_table =
   [(''scratch'', mk_ability ''Scratch'' (4/5) 90),
    (''bite'', (mk_ability ''Bite'' (6/5) 85)\<lparr>effect := Some ''bleed''\<rparr>),
    (''stab'', (mk_ability ''Stab'' (13/10) 80)\<lparr>effect := Some ''wound''\<rparr>),
    (''howl'', (mk_ability ''Howl'' 0 100)
       \<lparr>effect := Some ''reduce_defense'', effect_power := Some (4/5), duration := Some 3\<rparr>),
    (''pack_tactics'', mk_ability ''Pack Tactics'' (3/2) 90),
    (''web'', (mk_ability ''Web Shot'' (1/2) 75)\<lparr>effect := Some ''slow'', duration := Some 2\<rparr>),
    (''poison'', (mk_ability ''Poison Bite'' (9/10) 70)
       \<lparr>effect := Some ''poison'', effect_power := Some 3, duration := Some 4\<rparr>),
    (''cleave'', mk_ability ''Cleave'' (7/5) 80),
    (''charge'', (mk_ability ''Charge'' (9/5) 70)\<lparr>effect := Some ''stun'', duration := Some 1\<rparr>),
    (''berserk'', (mk_ability ''Berserk'' (13/10) 90)
       \<lparr>self_effect := Some ''increase_damage'', duration := Some 3\<rparr>),
    (''shield_block'', (mk_ability ''Shield Block'' 0 100)
       \<lparr>self_effect := Some ''increase_defense'', effect_power := Some (3/2), duration := Some 2\<rparr>),
    (''bone_shield'', (mk_ability ''Bone Shield'' 0 100)
       \<lparr>self_effect := Some ''damage_shield'', effect_power := Some 20, duration := Some 3\<rparr>),
    (''shadow_bolt'', (mk_ability ''Shadow Bolt'' (3/2) 85)\<lparr>damage_type := Some ''dark''\<rparr>),
    (''life_drain'', (mk_ability ''Life Drain'' (11/10) 80)
       \<lparr>damage_type := Some ''dark'', lifesteal := Some (1/2)\<rparr>),
    (''curse'', (mk_ability ''Curse'' 0 70)
       \<lparr>effect := Some ''reduce_all'', effect_power := Some (7/10), duration := Some 3\<rparr>),
    (''regeneration'', (mk_ability ''Regeneration'' 0 100)
       \<lparr>self_effect := Some ''heal_over_time'', effect_power := Some 10, duration := Some 3\<rparr>),
    (''rage'', (mk_ability ''Rage'' 1 100)
       \<lparr>self_effect := Some ''berserk_mode'', effect_power := Some (13/10), duration := Some 4\<rparr>),
    (''fire_breath'', (mk_ability ''Fire Breath'' 2 80)
       \<lparr>damage_type := Some ''fire'', effect := Some ''burn'', effect_power := Some 8,
        duration := Some 3\<rparr>),
    (''fear'', (mk_ability ''Fearsome Presence'' 0 60)\<lparr>effect := Some ''fear'', duration := Some 2\<rparr>)]"

definition abilities :: "string \<Rightarrow> ability option" where
  "abilities = map_of abilities_table"

text \<open>
  \<^verbatim>\<open>self.abilities.get(ability_name, self.abilities['scratch'])\<close>: an unknown name
  resolves to the entry of \<^verbatim>\<open>scratch\<close>.
\<close>

definition abilities_get :: "string \<Rightarrow> ability" where
  "abilities_get ability_name =
     (case abilities ability_name of Some a \<Rightarrow> a | None \<Rightarrow> mk_ability ''Scratch'' (4/5) 90)"

text \<open>
  An entry of \<^verbatim>\<open>self.status_effects\<close>. \<^verbatim>\<open>on_turn\<close> is one of the two lambdas of the
  table; \<open>has_on_end\<close> says that the key \<^verbatim>\<open>on_end\<close> is present (its value is \<^verbatim>\<open>None\<close>
  wherever it is).
\<close>

datatype on_turn_fn = OnTurnDamage rat DamageType | OnTurnSkip

record status_effect_def =
  se_name :: string
  on_turn :: "on_turn_fn option"
  has_on_end :: bool

definition status_effects_table :: "(string \<times> status_effect_def) list" where
  "status_effects_table =
   [(''bleed'', \<lparr>se_name = ''Bleeding'', on_turn = Some (OnTurnDamage 5 TRUE), has_on_end = True\<rparr>),
    (''poison'', \<lparr>se_name = ''Poisoned'', on_turn = Some (OnTurnDamage 4 POISON), has_on_end = True\<rparr>),
    (''burn'', \<lparr>se_name = ''Burning'', on_turn = Some (OnTurnDamage 8 FIRE), has_on_end = True\<rparr>),
    (''slow'', \<lparr>se_name = ''Slowed'', on_turn = None, has_on_end = False\<rparr>),
    (''stun'', \<lparr>se_name = ''Stunned'', on_turn = Some OnTurnSkip, has_on_end = False\<rparr>),
    (''fear'', \<lparr>se_name = ''Frightened'', on_turn = None, has_on_end = False\<rparr>),
    (''wound'', \<lparr>se_name = ''Wounded'', on_turn = None, has_on_end = False\<rparr>),
    (''bless'', \<lparr>se_name = ''Blessed'', on_turn = None, has_on_end = False\<rparr>),
    (''fortify'', \<lparr>se_name = ''Fortified'', on_turn = None, has_on_end = False\<rparr>),
    (''haste'', \<lparr>se_name = ''Hasted'', on_turn = None, has_on_end = False\<rparr>)]"

definition status_effects_catalog :: "string \<Rightarrow> status_effect_def option" where
  "status_effects_catalog = map_of status_effects_table"

text \<open>
  The module-level global \<^verbatim>\<open>combat_system = None\<close> (last line of the module), which
  \<^verbatim>\<open>Enemy.process_status_effects\<close> reads. Nothing in the repository assigns it.
\<close>

definition combat_system :: "(string \<Rightarrow> status_effect_def option) option" where
  "combat_system = None"

subsection \<open>Combatants and the session\<close>

text \<open>
  The player dict, shared with the rest of the game. Keys the combat code indexes directly
  are fields; keys it reads through \<^verbatim>\<open>.get(key, default)\<close> or tests with \<^verbatim>\<open>in\<close> are
  options (\<open>None\<close>: the key is absent).
\<close>

record player =
  p_health :: int
  p_max_health :: int
  p_strength :: int
  p_defense :: int
  p_level :: int
  p_xp :: int
  p_xp_to_next :: int
  p_gold :: int
  p_mana :: "int option"
  p_speed :: "int option"
  p_abilities :: "string list option"
  p_inventory :: "string list option"
  p_accuracy_mod :: "rat option"

text \<open>An entry of \<^verbatim>\<open>Enemy.status_effects\<close>, as \<^verbatim>\<open>apply_status\<close> builds it.\<close>

record status =
  st_name :: string
  st_duration :: int
  st_stacks :: int

text \<open>An \<^verbatim>\<open>Enemy\<close> instance (the attributes the turn engine reads or writes).\<close>

record enemy =
  etype :: string
  ename :: string
  max_health :: int
  health :: int
  damage :: int
  defense :: int
  speed :: int
  attack_patterns :: "string list"
  pattern_index :: nat
  status_effects :: "status list"
  xp_reward :: int
  gold_reward :: int
  resistances :: "string \<Rightarrow> rat option"
  weaknesses :: "string \<Rightarrow> rat option"
  loot_table :: "string list"
  stunned :: bool

text \<open>An entry of \<^verbatim>\<open>player_buffs\<close>: \<^verbatim>\<open>player_defend\<close> sets \<^verbatim>\<open>defense_mult\<close>,
  \<^verbatim>\<open>player_attack\<close> reads \<^verbatim>\<open>damage_mult\<close> where the key is present.\<close>

record buff =
  b_name :: string
  b_defense_mult :: "rat option"
  b_damage_mult :: "rat option"
  b_duration :: "int option"

text \<open>An entry of \<^verbatim>\<open>player_debuffs\<close>, as \<^verbatim>\<open>apply_effect\<close> builds it.\<close>

record debuff =
  d_name :: string
  d_duration :: int
  d_power :: "rat option"

text \<open>
  The texts the engine returns and logs, one constructor for each template, holding the
  values the f-string interpolates. \<open>Joined\<close> is \<^verbatim>\<open>" ".join(parts)\<close> or
  \<^verbatim>\<open>"\n".join(parts)\<close>.
\<close>

datatype message =
    NotYourTurn
  | InvalidAction
  | WaitForYourTurn
  | NotInCombat
  | AttackMisses
  | AttackFor int
  | AttackForCritical int int
  | DefensiveStance
  | DontHaveAbility "string option"
  | NotEnoughMana
  | DontHaveItem "string option"
  | Healed int
  | Dealt int string
  | Gained string
  | UsedLog string "message list"
  | YouUse string "message list"
  | FleeSuccess
  | FleeFailed
  | Empty
  | StunnedCannotAct string
  | TriesButMisses string string
  | UsesOnFor string string string int
  | Uses string string
  | IsNow string string
  | Drains string int
  | Joined "message list"
  | VictoryBanner string
  | GainedExperience int
  | FoundGold int
  | LevelUpBanner int
  | Loot "string list"
  | VictoryLog
  | DefeatBanner string
  | DefeatLog
  | CombatStarted string
  | Description string

text \<open>
  A \<^verbatim>\<open>CombatSystem\<close> instance together with the player dict it references, once
  \<^verbatim>\<open>start_combat\<close> has run on it, so that \<^verbatim>\<open>self.enemy\<close> is an \<^verbatim>\<open>Enemy\<close>.
  (Before that \<^verbatim>\<open>self.enemy\<close> is \<^verbatim>\<open>None\<close> and \<^verbatim>\<open>self.state\<close> is \<^verbatim>\<open>ACTIVE\<close>.)
  Attributes that no method reads (\<^verbatim>\<open>battle_flags\<close>, \<^verbatim>\<open>enemy_buffs\<close>,
  \<^verbatim>\<open>enemy_debuffs\<close>) are left out.
\<close>

record CombatSystem =
  player :: player
  enemy :: enemy
  state :: CombatState
  turn_count :: int
  combat_log :: "message list"
  player_buffs :: "buff list"
  player_debuffs :: "debuff list"

text \<open>
  The outcomes of the calls of \<^verbatim>\<open>random\<close> that one \<^verbatim>\<open>process_player_turn\<close> can make,
  each named after the place that draws it.
\<close>

record rolls =
  hit_roll :: int
  damage_roll :: int
  crit_roll :: int
  ability_roll :: int
  flee_draw :: rat
  loot_draw :: "nat \<Rightarrow> rat"
  enemy_roll :: int

subsection \<open>The Enemy class\<close>

text \<open>\<^verbatim>\<open>Enemy.take_damage\<close>: returns the damage applied and the enemy after it.\<close>

definition take_damage :: "rat \<Rightarrow> DamageType \<Rightarrow> enemy \<Rightarrow> int \<times> enemy" where
  "take_damage amount dt e =
     (let resist_mult0 = (1::rat);
          resist_mult1 = (case resistances e (DamageType_value dt) of
                            Some r \<Rightarrow> fmul resist_mult0 r | None \<Rightarrow> resist_mult0);
          resist_mult = (case weaknesses e (DamageType_value dt) of
                            Some w \<Rightarrow> fmul resist_mult1 w | None \<Rightarrow> resist_mult1);
          final_damage0 = py_int (fmul amount resist_mult);
          final_damage = (if dt = PHYSICAL then max 1 (final_damage0 - defense e)
                          else final_damage0)
      in (final_damage, e\<lparr>health := health e - final_damage\<rparr>))"

text \<open>\<^verbatim>\<open>Enemy.heal\<close>: returns the health gained and the enemy after it.\<close>

definition heal :: "int \<Rightarrow> enemy \<Rightarrow> int \<times> enemy" where
  "heal amount e =
     (let new_health = min (max_health e) (health e + amount)
      in (new_health - health e, e\<lparr>health := new_health\<rparr>))"

definition is_alive :: "enemy \<Rightarrow> bool" where
  "is_alive e = (health e > 0)"

text \<open>\<^verbatim>\<open>Enemy.get_next_ability\<close>: the modulus raises on an empty pattern list.\<close>

definition get_next_ability :: "enemy \<Rightarrow> error + (string \<times> enemy)" where
  "get_next_ability e =
     (if attack_patterns e = [] then Inl ZeroDivisionError
      else Inr (attack_patterns e ! (pattern_index e mod length (attack_patterns e)),
                e\<lparr>pattern_index := pattern_index e + 1\<rparr>))"

definition apply_status :: "string \<Rightarrow> int \<Rightarrow> enemy \<Rightarrow> enemy" where
  "apply_status eff dur e =
     e\<lparr>status_effects := status_effects e @ [\<lparr>st_name = eff, st_duration = dur, st_stacks = 1\<rparr>]\<rparr>"

definition skip_turn :: "enemy \<Rightarrow> enemy" where
  "skip_turn e = e\<lparr>stunned := True\<rparr>"

text \<open>
  The loop of \<^verbatim>\<open>Enemy.process_status_effects\<close> over the snapshot
  \<^verbatim>\<open>self.status_effects[:]\<close>, for a catalogue \<open>cat\<close>. \<open>kept\<close> holds the entries already
  visited and still in the list, so the list of the enemy is \<open>kept\<close> followed by the
  entries still to visit. A visited entry whose name is in the catalogue runs its
  \<^verbatim>\<open>on_turn\<close>, loses one turn of duration, and at duration 0 or below is removed;
  where the entry of the catalogue has the key \<^verbatim>\<open>on_end\<close>, its value \<^verbatim>\<open>None\<close> is called
  first, which raises \<^verbatim>\<open>TypeError\<close>. (\<^verbatim>\<open>remove\<close> deletes the first equal entry; the
  entries kept before it have a positive duration, so that is the entry visited.)
\<close>

fun status_loop ::
  "(string \<Rightarrow> status_effect_def option) \<Rightarrow> status list \<Rightarrow> status list \<Rightarrow> enemy \<Rightarrow> error + enemy"
where
  "status_loop cat kept [] e = Inr (e\<lparr>status_effects := kept\<rparr>)"
| "status_loop cat kept (eff # rest) e =
     (case cat (st_name eff) of
        None \<Rightarrow> status_loop cat (kept @ [eff]) rest e
      | Some effect_data \<Rightarrow>
          (let e1 = (case on_turn effect_data of
                       None \<Rightarrow> e
                     | Some (OnTurnDamage amount dt) \<Rightarrow> snd (take_damage amount dt e)
                     | Some OnTurnSkip \<Rightarrow> skip_turn e);
               eff' = eff\<lparr>st_duration := st_duration eff - 1\<rparr>
           in if st_duration eff' \<le> 0
              then (if has_on_end effect_data then Inl TypeError
                    else status_loop cat kept rest e1)
              else status_loop cat (kept @ [eff']) rest e1))"

text \<open>
  \<^verbatim>\<open>Enemy.process_status_effects\<close>: with no entry the loop body never runs; with one,
  the first iteration reads \<^verbatim>\<open>combat_system.status_effects\<close> off the module global.
\<close>

definition process_status_effects :: "enemy \<Rightarrow> error + enemy" where
  "process_status_effects e =
     (case status_effects e of
        [] \<Rightarrow> Inr e
      | _ # _ \<Rightarrow>
          (case combat_system of
             None \<Rightarrow> Inl AttributeError
           | Some cat \<Rightarrow> status_loop cat [] (status_effects e) e))"

subsection \<open>Player actions\<close>

text \<open>\<^verbatim>\<open>add_to_log\<close>: the log keeps the ten most recent entries.\<close>

definition add_to_log :: "message \<Rightarrow> CombatSystem \<Rightarrow> CombatSystem" where
  "add_to_log m s =
     (let l = combat_log s @ [m]
      in s\<lparr>combat_log := (if length l > 10 then tl l else l)\<rparr>)"

text \<open>
  \<^verbatim>\<open>player_attack\<close>. \<open>hit_roll\<close> is the value of \<^verbatim>\<open>random.randint(1, 100)\<close>,
  \<open>damage_roll\<close> the value of \<^verbatim>\<open>random.randint(strength - 2, strength + 2)\<close>, and
  \<open>crit_roll\<close> the value of \<^verbatim>\<open>random.randint(1, 20)\<close>.
\<close>

definition player_attack :: "rolls \<Rightarrow> CombatSystem \<Rightarrow> message \<times> CombatSystem" where
  "player_attack r s =
     (let base_hit = (case p_accuracy_mod (player s) of Some m \<Rightarrow> fmul 85 m | None \<Rightarrow> 85)
      in if of_int (hit_roll r) > base_hit then (AttackMisses, add_to_log AttackMisses s)
         else
           let base_damage = damage_roll r;
               dmg = foldl (\<lambda>d b. case b_damage_mult b of Some m \<Rightarrow> fmul d m | None \<Rightarrow> d)
                       (of_int base_damage) (player_buffs s);
               (actual_damage, e1) = take_damage dmg PHYSICAL (enemy s);
               s1 = add_to_log (AttackFor actual_damage) (s\<lparr>enemy := e1\<rparr>)
           in if crit_roll r = 20
              then (let (crit_damage, e2) = take_damage (of_int \<lfloor>dmg / 2\<rfloor>) PHYSICAL e1
                    in (AttackForCritical actual_damage crit_damage, s1\<lparr>enemy := e2\<rparr>))
              else (AttackFor actual_damage, s1))"

text \<open>\<^verbatim>\<open>player_defend\<close>: appends the buff \<^verbatim>\<open>{name: defending, defense_mult: 1.5, duration: 2}\<close>.\<close>

definition defending :: buff where
  "defending = \<lparr>b_name = ''defending'', b_defense_mult = Some (3/2), b_damage_mult = None,
                b_duration = Some 2\<rparr>"

definition player_defend :: "CombatSystem \<Rightarrow> message \<times> CombatSystem" where
  "player_defend s =
     (DefensiveStance, add_to_log DefensiveStance (s\<lparr>player_buffs := player_buffs s @ [defending]\<rparr>))"

text \<open>The two sides of a fight: who uses an ability, and who is its target.\<close>

datatype combatant = ThePlayer | TheEnemy

text \<open>
  \<^verbatim>\<open>apply_effect\<close>: an effect of the status catalogue goes on the enemy's
  \<^verbatim>\<open>status_effects\<close> (the target has \<^verbatim>\<open>apply_status\<close>) or on \<^verbatim>\<open>player_debuffs\<close>
  (the target is the player dict); any other effect name does nothing.
\<close>

definition apply_effect ::
  "string \<Rightarrow> combatant \<Rightarrow> int \<Rightarrow> rat option \<Rightarrow> CombatSystem \<Rightarrow> message option \<times> CombatSystem"
where
  "apply_effect effect_name target dur pow s =
     (case status_effects_catalog effect_name of
        None \<Rightarrow> (None, s)
      | Some effect_data \<Rightarrow>
          (case target of
             TheEnemy \<Rightarrow>
               (Some (IsNow (ename (enemy s)) (se_name effect_data)),
                s\<lparr>enemy := apply_status effect_name dur (enemy s)\<rparr>)
           | ThePlayer \<Rightarrow>
               (Some (IsNow ''You'' (se_name effect_data)),
                s\<lparr>player_debuffs := player_debuffs s @
                     [\<lparr>d_name = effect_name, d_duration = dur, d_power = pow\<rparr>]\<rparr>)))"

text \<open>
  \<^verbatim>\<open>use_ability(user, ability_name, target)\<close>, called with the player against the
  enemy or the enemy against the player; \<open>roll\<close> is the value of
  \<^verbatim>\<open>random.randint(1, 100)\<close>. The step \<^verbatim>\<open>target.take_damage(damage, damage_type)\<close>
  is a method of \<^verbatim>\<open>Enemy\<close>; the player is a dict and has no such attribute.
\<close>

definition use_ability ::
  "combatant \<Rightarrow> string \<Rightarrow> int \<Rightarrow> CombatSystem \<Rightarrow> error + (message \<times> CombatSystem)"
where
  "use_ability user ability_name roll s =
     (let ability = abilities_get ability_name;
          user_name = (case user of TheEnemy \<Rightarrow> ename (enemy s) | ThePlayer \<Rightarrow> ''You'');
          target = (case user of TheEnemy \<Rightarrow> ThePlayer | ThePlayer \<Rightarrow> TheEnemy)
      in if roll > (case accuracy ability of Some a \<Rightarrow> a | None \<Rightarrow> 85)
         then Inr (TriesButMisses user_name (a_name ability), s)
         else
           let dmult = (case damage_mult ability of Some m \<Rightarrow> m | None \<Rightarrow> 1);
               base_damage = (case user of TheEnemy \<Rightarrow> damage (enemy s)
                                         | ThePlayer \<Rightarrow> p_strength (player s));
               dmg = py_int (fmul (of_int base_damage) dmult)
           in case DamageType_by_name
                     (upper (case damage_type ability of Some t \<Rightarrow> t | None \<Rightarrow> ''PHYSICAL'')) of
                None \<Rightarrow> Inl KeyError
              | Some dt \<Rightarrow>
                  (case (if dmg > 0
                         then (case target of
                                 TheEnemy \<Rightarrow>
                                   (let (dealt, e1) = take_damage (of_int dmg) dt (enemy s)
                                    in Inr (dealt, s\<lparr>enemy := e1\<rparr>))
                               | ThePlayer \<Rightarrow> Inl AttributeError)
                         else Inr (0, s)) of
                     Inl err \<Rightarrow> Inl err
                   | Inr (damage_dealt, s1) \<Rightarrow>
                       (let target_name = (case target of TheEnemy \<Rightarrow> ename (enemy s1)
                                                        | ThePlayer \<Rightarrow> ''you'');
                            parts0 = [if damage_dealt > 0
                                      then UsesOnFor user_name (a_name ability) target_name damage_dealt
                                      else Uses user_name (a_name ability)];
                            dur = (case duration ability of Some d \<Rightarrow> d | None \<Rightarrow> 2);
                            (r1, s2) = (case effect ability of
                                          None \<Rightarrow> (None, s1)
                                        | Some eff \<Rightarrow>
                                            if eff = [] then (None, s1)
                                            else apply_effect eff target dur (effect_power ability) s1);
                            parts1 = parts0 @ (case r1 of Some m \<Rightarrow> [m] | None \<Rightarrow> []);
                            (r2, s3) = (case self_effect ability of
                                          None \<Rightarrow> (None, s2)
                                        | Some eff \<Rightarrow>
                                            if eff = [] then (None, s2)
                                            else apply_effect eff user dur (effect_power ability) s2);
                            parts2 = parts1 @ (case r2 of Some m \<Rightarrow> [m] | None \<Rightarrow> []);
                            (parts3, s4) =
                               (case lifesteal ability of
                                  None \<Rightarrow> (parts2, s3)
                                | Some ls \<Rightarrow>
                                    if fl ls \<noteq> 0 \<and> damage_dealt > 0
                                    then (let heal_amount = py_int (fmul (of_int damage_dealt) ls)
                                          in case user of
                                               TheEnemy \<Rightarrow>
                                                 (let (actual_heal, e2) = heal heal_amount (enemy s3)
                                                  in (parts2 @ [Drains user_name actual_heal],
                                                      s3\<lparr>enemy := e2\<rparr>))
                                             | ThePlayer \<Rightarrow>
                                                 (parts2 @ [Drains ''You'' heal_amount],
                                                  s3\<lparr>player := (player s3)
                                                       \<lparr>p_health := min (p_max_health (player s3))
                                                            (p_health (player s3) + heal_amount)\<rparr>\<rparr>))
                                    else (parts2, s3))
                        in Inr (Joined parts3, s4))))"

text \<open>An entry of the table inside \<^verbatim>\<open>get_player_ability\<close>.\<close>

record player_ability_def =
  pa_name :: string
  pa_damage_mult :: rat
  pa_mana_cost :: int
  pa_accuracy :: "int option"
  pa_effect :: "string option"
  pa_heal :: "int option"
  pa_damage_type :: "string option"

definition player_abilities_table :: "(string \<times> player_ability_def) list" where
  "player_abilities_table =
   [(''power_attack'', \<lparr>pa_name = ''Power Attack'', pa_damage_mult = 3/2, pa_mana_cost = 5,
        pa_accuracy = Some 75, pa_effect = None, pa_heal = None, pa_damage_type = None\<rparr>),
    (''quick_strike'', \<lparr>pa_name = ''Quick Strike'', pa_damage_mult = 4/5, pa_mana_cost = 3,
        pa_accuracy = Some 95, pa_effect = None, pa_heal = None, pa_damage_type = None\<rparr>),
    (''shield_bash'', \<lparr>pa_name = ''Shield Bash'', pa_damage_mult = 1, pa_mana_cost = 4,
        pa_accuracy = Some 80, pa_effect = Some ''stun'', pa_heal = None, pa_damage_type = None\<rparr>),
    (''healing_light'', \<lparr>pa_name = ''Healing Light'', pa_damage_mult = 0, pa_mana_cost = 10,
        pa_accuracy = None, pa_effect = None, pa_heal = Some 25, pa_damage_type = None\<rparr>),
    (''fireball'', \<lparr>pa_name = ''Fireball'', pa_damage_mult = 9/5, pa_mana_cost = 15,
        pa_accuracy = Some 70, pa_effect = None, pa_heal = None, pa_damage_type = Some ''fire''\<rparr>)]"

text \<open>\<^verbatim>\<open>get_player_ability\<close>: \<open>None\<close> stands for the empty dict of an unknown name.\<close>

definition get_player_ability :: "string \<Rightarrow> player_ability_def option" where
  "get_player_ability ability_name = map_of player_abilities_table ability_name"

text \<open>
  \<^verbatim>\<open>player_ability\<close>. The argument is \<open>None\<close> when \<^verbatim>\<open>process_player_turn\<close> was called
  without a target. The mana cost comes from \<^verbatim>\<open>get_player_ability\<close>; the resolution is
  \<^verbatim>\<open>use_ability\<close> with the name alone.
\<close>

definition player_ability ::
  "string option \<Rightarrow> rolls \<Rightarrow> CombatSystem \<Rightarrow> error + (message \<times> CombatSystem)"
where
  "player_ability ability_name r s =
     (case ability_name of
        None \<Rightarrow> Inr (DontHaveAbility None, s)
      | Some n \<Rightarrow>
          if n \<notin> set (case p_abilities (player s) of Some l \<Rightarrow> l | None \<Rightarrow> [])
          then Inr (DontHaveAbility (Some n), s)
          else
            let ability_data = get_player_ability n
            in if (case ability_data of Some d \<Rightarrow> pa_mana_cost d | None \<Rightarrow> 0)
                    > (case p_mana (player s) of Some m \<Rightarrow> m | None \<Rightarrow> 0)
               then Inr (NotEnoughMana, s)
               else
                 (case use_ability ThePlayer n (ability_roll r) s of
                    Inl err \<Rightarrow> Inl err
                  | Inr (result, s1) \<Rightarrow>
                      (case ability_data of
                         None \<Rightarrow> Inr (result, add_to_log result s1)
                       | Some d \<Rightarrow>
                           (case p_mana (player s1) of
                              None \<Rightarrow> Inl KeyError
                            | Some m \<Rightarrow>
                                Inr (result,
                                     add_to_log result
                                       (s1\<lparr>player := (player s1)
                                            \<lparr>p_mana := Some (m - pa_mana_cost d)\<rparr>\<rparr>))))))"

text \<open>The effect dicts of \<^verbatim>\<open>get_item_effects\<close>, by their \<^verbatim>\<open>type\<close> key.\<close>

datatype item_effect =
    ItemHeal int
  | ItemMana int
  | ItemDamage int "string option"
  | ItemEffect string int
  | ItemBuff buff

definition item_effects_table :: "(string \<times> item_effect list) list" where
  "item_effects_table =
   [(''health_potion'', [ItemHeal 30]),
    (''mana_potion'', [ItemMana 20]),
    (''bomb'', [ItemDamage 25 (Some ''fire'')]),
    (''poison_dagger'', [ItemDamage 15 None, ItemEffect ''poison'' 3])]"

definition get_item_effects :: "string \<Rightarrow> item_effect list" where
  "get_item_effects item_name =
     (case map_of item_effects_table (lower item_name) of Some l \<Rightarrow> l | None \<Rightarrow> [])"

text \<open>
  The loop of \<^verbatim>\<open>player_use_item\<close> over the effects. A \<^verbatim>\<open>damage\<close> effect calls
  \<^verbatim>\<open>self.enemy.take_damage(amount, effect.get('damage_type'))\<close> with a string or
  \<^verbatim>\<open>None\<close> as damage type, and \<^verbatim>\<open>take_damage\<close> starts by reading its
  \<^verbatim>\<open>.value\<close>. The types \<^verbatim>\<open>mana\<close> and \<^verbatim>\<open>effect\<close> match no branch.
\<close>

fun item_loop ::
  "item_effect list \<Rightarrow> message list \<Rightarrow> CombatSystem \<Rightarrow> error + (message list \<times> CombatSystem)"
where
  "item_loop [] result s = Inr (result, s)"
| "item_loop (ItemHeal amount # rest) result s =
     (let heal_amount = min amount (p_max_health (player s) - p_health (player s))
      in item_loop rest (result @ [Healed heal_amount])
           (s\<lparr>player := (player s)\<lparr>p_health := p_health (player s) + heal_amount\<rparr>\<rparr>))"
| "item_loop (ItemDamage amount dt # rest) result s = Inl AttributeError"
| "item_loop (ItemBuff b # rest) result s =
     item_loop rest (result @ [Gained (b_name b)]) (s\<lparr>player_buffs := player_buffs s @ [b]\<rparr>)"
| "item_loop (ItemMana amount # rest) result s = item_loop rest result s"
| "item_loop (ItemEffect eff dur # rest) result s = item_loop rest result s"

definition player_use_item ::
  "string option \<Rightarrow> CombatSystem \<Rightarrow> error + (message \<times> CombatSystem)"
where
  "player_use_item item_name s =
     (case item_name of
        None \<Rightarrow> Inr (DontHaveItem None, s)
      | Some n \<Rightarrow>
          (case p_inventory (player s) of
             None \<Rightarrow> Inr (DontHaveItem (Some n), s)
           | Some inv0 \<Rightarrow>
               if n \<notin> set inv0 then Inr (DontHaveItem (Some n), s)
               else
                 (case item_loop (get_item_effects n) [] s of
                    Inl err \<Rightarrow> Inl err
                  | Inr (result, s1) \<Rightarrow>
                      (case p_inventory (player s1) of
                         None \<Rightarrow> Inl KeyError
                       | Some items \<Rightarrow>
                           Inr (YouUse n result,
                                add_to_log (UsedLog n result)
                                  (s1\<lparr>player := (player s1)
                                       \<lparr>p_inventory := Some (remove1 n items)\<rparr>\<rparr>))))))"

text \<open>\<^verbatim>\<open>player_flee\<close>: \<open>flee_draw\<close> is the value of \<^verbatim>\<open>random.random()\<close>.\<close>

definition flee_chance :: "CombatSystem \<Rightarrow> rat" where
  "flee_chance s =
     (let player_speed = (case p_speed (player s) of Some v \<Rightarrow> v | None \<Rightarrow> 10);
          enemy_speed = speed (enemy s);
          c = fadd (3/10) (fmul (of_int (player_speed - enemy_speed)) (1/20))
      in max (fl (1/10)) (min (fl (7/10)) c))"

definition player_flee :: "rolls \<Rightarrow> CombatSystem \<Rightarrow> message \<times> CombatSystem" where
  "player_flee r s =
     (if fl (flee_draw r) < flee_chance s
      then (FleeSuccess, add_to_log FleeSuccess (s\<lparr>state := FLEE\<rparr>))
      else (FleeFailed, add_to_log FleeFailed s))"

subsection \<open>The enemy's turn\<close>

text \<open>\<^verbatim>\<open>process_enemy_turn\<close>: \<open>enemy_roll\<close> is the accuracy roll of its \<^verbatim>\<open>use_ability\<close>.\<close>

definition process_enemy_turn :: "rolls \<Rightarrow> CombatSystem \<Rightarrow> error + (message \<times> CombatSystem)" where
  "process_enemy_turn r s =
     (if \<not> is_alive (enemy s) then Inr (Empty, s)
      else if stunned (enemy s)
      then Inr (StunnedCannotAct (ename (enemy s)), s\<lparr>enemy := (enemy s)\<lparr>stunned := False\<rparr>\<rparr>)
      else
        (case process_status_effects (enemy s) of
           Inl err \<Rightarrow> Inl err
         | Inr e1 \<Rightarrow>
             (case get_next_ability e1 of
                Inl err \<Rightarrow> Inl err
              | Inr (ability_name, e2) \<Rightarrow>
                  (case use_ability TheEnemy ability_name (enemy_roll r) (s\<lparr>enemy := e2\<rparr>) of
                     Inl err \<Rightarrow> Inl err
                   | Inr (result, s1) \<Rightarrow> Inr (result, add_to_log result s1)))))"

subsection \<open>Rewards\<close>

text \<open>\<^verbatim>\<open>level_up\<close>, on the player dict.\<close>

definition level_up :: "player \<Rightarrow> player" where
  "level_up p =
     (let p1 = p\<lparr>p_level := p_level p + 1\<rparr>;
          p2 = p1\<lparr>p_xp := p_xp p1 - p_xp_to_next p1\<rparr>;
          p3 = p2\<lparr>p_xp_to_next := py_int (fmul (of_int (p_xp_to_next p2)) (3/2))\<rparr>;
          p4 = p3\<lparr>p_max_health := p_max_health p3 + 10\<rparr>;
          p5 = p4\<lparr>p_health := p_max_health p4\<rparr>;
          p6 = p5\<lparr>p_strength := p_strength p5 + 2\<rparr>
      in p6\<lparr>p_defense := p_defense p6 + 1\<rparr>)"

text \<open>
  The loop of \<^verbatim>\<open>get_loot\<close>: the entry at position \<open>i\<close> of the loot table is granted
  when its draw \<open>draw i\<close> of \<^verbatim>\<open>random.random()\<close> is below 0.3; granting it indexes
  the player's \<^verbatim>\<open>inventory\<close> key.
\<close>

fun loot_loop ::
  "(nat \<Rightarrow> rat) \<Rightarrow> nat \<Rightarrow> string list \<Rightarrow> string list \<Rightarrow> player \<Rightarrow> error + (string list \<times> player)"
where
  "loot_loop draw i [] loot p = Inr (loot, p)"
| "loot_loop draw i (item # rest) loot p =
     (if fl (draw i) < fl (3/10)
      then (case p_inventory p of
              None \<Rightarrow> Inl KeyError
            | Some items \<Rightarrow>
                loot_loop draw (i + 1) rest (loot @ [item]) (p\<lparr>p_inventory := Some (items @ [item])\<rparr>))
      else loot_loop draw (i + 1) rest loot p)"

definition get_loot :: "rolls \<Rightarrow> CombatSystem \<Rightarrow> error + (string list \<times> CombatSystem)" where
  "get_loot r s =
     (case loot_loop (loot_draw r) 0 (loot_table (enemy s)) [] (player s) of
        Inl err \<Rightarrow> Inl err
      | Inr (loot, p) \<Rightarrow> Inr (loot, s\<lparr>player := p\<rparr>))"

text \<open>\<^verbatim>\<open>process_victory\<close>.\<close>

definition process_victory :: "rolls \<Rightarrow> CombatSystem \<Rightarrow> error + (message \<times> CombatSystem)" where
  "process_victory r s =
     (let result0 = [VictoryBanner (ename (enemy s))];
          xp_gained = xp_reward (enemy s);
          s1 = s\<lparr>player := (player s)\<lparr>p_xp := p_xp (player s) + xp_gained\<rparr>\<rparr>;
          result1 = result0 @ [GainedExperience xp_gained];
          gold_gained = gold_reward (enemy s1);
          s2 = s1\<lparr>player := (player s1)\<lparr>p_gold := p_gold (player s1) + gold_gained\<rparr>\<rparr>;
          result2 = result1 @ [FoundGold gold_gained];
          (result3, s3) =
             (if p_xp (player s2) \<ge> p_xp_to_next (player s2)
              then (let p = level_up (player s2)
                    in (result2 @ [LevelUpBanner (p_level p)], s2\<lparr>player := p\<rparr>))
              else (result2, s2))
      in case get_loot r s3 of
           Inl err \<Rightarrow> Inl err
         | Inr (loot, s4) \<Rightarrow>
             Inr (Joined (if loot \<noteq> [] then result3 @ [Loot loot] else result3),
                  add_to_log VictoryLog s4))"

definition process_defeat :: "CombatSystem \<Rightarrow> message \<times> CombatSystem" where
  "process_defeat s = (DefeatBanner (ename (enemy s)), add_to_log DefeatLog s)"

subsection \<open>The turn engine\<close>

text \<open>
  The \<^verbatim>\<open>if\<close>/\<^verbatim>\<open>elif\<close> chain of \<^verbatim>\<open>process_player_turn\<close> that runs the action;
  \<open>None\<close> is its \<^verbatim>\<open>else\<close> branch (the action is not recognised).
\<close>

definition player_action ::
  "string \<Rightarrow> string option \<Rightarrow> string option \<Rightarrow> rolls \<Rightarrow> CombatSystem
     \<Rightarrow> (error + (message \<times> CombatSystem)) option"
where
  "player_action action target item r s =
     (if action = ''attack'' then Some (Inr (player_attack r s))
      else if action = ''defend'' then Some (Inr (player_defend s))
      else if action = ''ability'' then Some (player_ability target r s)
      else if action = ''use_item'' then Some (player_use_item item s)
      else if action = ''flee'' then Some (Inr (player_flee r s))
      else None)"

text \<open>
  \<^verbatim>\<open>process_player_turn(action, target, item)\<close>: the texts joined by newlines are the
  list returned.
\<close>

definition process_player_turn ::
  "string \<Rightarrow> string option \<Rightarrow> string option \<Rightarrow> rolls \<Rightarrow> CombatSystem
     \<Rightarrow> error + (message list \<times> CombatSystem)"
where
  "process_player_turn action target item r s =
     (if state s \<noteq> PLAYER_TURN then Inr ([NotYourTurn], s)
      else
        (case player_action action target item r s of
           None \<Rightarrow> Inr ([InvalidAction], s)
         | Some (Inl err) \<Rightarrow> Inl err
         | Some (Inr (m, s1)) \<Rightarrow>
             if \<not> is_alive (enemy s1)
             then (case process_victory r (s1\<lparr>state := VICTORY\<rparr>) of
                     Inl err \<Rightarrow> Inl err
                   | Inr (victory_result, s2) \<Rightarrow> Inr ([m, victory_result], s2))
             else
               (let s2 = s1\<lparr>state := ENEMY_TURN\<rparr>;
                    s3 = s2\<lparr>turn_count := turn_count s2 + 1\<rparr>
                in case process_enemy_turn r s3 of
                     Inl err \<Rightarrow> Inl err
                   | Inr (enemy_result, s4) \<Rightarrow>
                       (let (result, s5) =
                              (if p_health (player s4) \<le> 0
                               then (let (d, s') = process_defeat (s4\<lparr>state := DEFEAT\<rparr>)
                                     in ([m, enemy_result, d], s'))
                               else ([m, enemy_result], s4));
                            s6 = (if state s5 = ACTIVE then s5\<lparr>state := PLAYER_TURN\<rparr> else s5)
                        in Inr (result, s6)))))"

text \<open>\<^verbatim>\<open>in_combat\<close> and the wrapper \<^verbatim>\<open>process_turn\<close> of the game loop.\<close>

definition in_combat :: "CombatSystem \<Rightarrow> bool" where
  "in_combat s = (state s \<notin> set [VICTORY, DEFEAT, FLEE])"

definition process_turn ::
  "string \<Rightarrow> rolls \<Rightarrow> CombatSystem \<Rightarrow> error + (message list \<times> CombatSystem)"
where
  "process_turn action r s =
     (if \<not> in_combat s then Inr ([NotInCombat], s)
      else if state s = PLAYER_TURN then process_player_turn action None None r s
      else Inr ([WaitForYourTurn], s))"

subsection \<open>Spawning an enemy\<close>

text \<open>An entry of \<^verbatim>\<open>self.enemy_types\<close> (the keys \<^verbatim>\<open>Enemy.__init__\<close> and the engine read).\<close>

record enemy_data =
  ed_name :: string
  ed_level :: int
  base_health :: int
  base_damage :: int
  base_defense :: int
  ed_speed :: int
  ed_xp_reward :: int
  ed_gold_reward :: "int \<times> int"
  ed_resistances :: "(string \<times> rat) list"
  ed_weaknesses :: "(string \<times> rat) list"
  ed_attack_patterns :: "string list"
  ed_loot_table :: "string list"

definition mk_enemy_data ::
  "string \<Rightarrow> int \<Rightarrow> int \<Rightarrow> int \<Rightarrow> int \<Rightarrow> int \<Rightarrow> int \<Rightarrow> int \<times> int \<Rightarrow> enemy_data"
where
  "mk_enemy_data n lv h d df sp xp g =
     \<lparr>ed_name = n, ed_level = lv, base_health = h, base_damage = d, base_defense = df,
      ed_speed = sp, ed_xp_reward = xp, ed_gold_reward = g, ed_resistances = [],
      ed_weaknesses = [], ed_attack_patterns = [], ed_loot_table = []\<rparr>"

text \<open>\<^verbatim>\<open>setup_enemy_types\<close>: the table \<^verbatim>\<open>self.enemy_types\<close>.\<close>

definition enemy_types_table :: "(string \<times> enemy_data) list" where
  "enemy_types_table =
   [(''goblin'', (mk_enemy_data ''Goblin'' 1 25 5 3 12 15 (3, 8))
       \<lparr>ed_weaknesses := [(''physical'', 6/5)],
        ed_attack_patterns := [''basic'', ''basic'', ''dodge''],
        ed_loot_table := [''goblin_ear'', ''rusty_dagger'', ''copper_coin'']\<rparr>),
    (''wolf'', (mk_enemy_data ''Wolf'' 2 35 8 4 15 25 (5, 12))
       \<lparr>ed_weaknesses := [(''fire'', 6/5)],
        ed_attack_patterns := [''basic'', ''bite'', ''howl''],
        ed_loot_table := [''wolf_pelt'', ''wolf_tooth'', ''raw_meat'']\<rparr>),
    (''bandit'', (mk_enemy_data ''Bandit'' 2 40 7 5 10 30 (10, 25))
       \<lparr>ed_attack_patterns := [''basic'', ''stab'', ''basic'', ''intimidate''],
        ed_loot_table := [''leather_armor'', ''short_sword'', ''gold_coins'']\<rparr>),
    (''giant_spider'', (mk_enemy_data ''Giant Spider'' 3 45 10 6 14 40 (8, 15))
       \<lparr>ed_resistances := [(''poison'', 1/2)],
        ed_weaknesses := [(''fire'', 3/2)],
        ed_attack_patterns := [''basic'', ''bite'', ''web'', ''poison''],
        ed_loot_table := [''spider_silk'', ''venom_sac'', ''chitin'']\<rparr>),
    (''orc'', (mk_enemy_data ''Orc'' 4 65 15 10 8 60 (15, 30))
       \<lparr>ed_resistances := [(''physical'', 4/5)],
        ed_weaknesses := [(''holy'', 13/10)],
        ed_attack_patterns := [''basic'', ''cleave'', ''charge'', ''berserk''],
        ed_loot_table := [''orc_axe'', ''tusks'', ''coarse_fur'']\<rparr>),
    (''skeleton'', (mk_enemy_data ''Skeleton Warrior'' 4 50 12 8 11 55 (10, 20))
       \<lparr>ed_resistances := [(''physical'', 7/10), (''poison'', 0)],
        ed_weaknesses := [(''holy'', 2), (''bludgeoning'', 13/10)],
        ed_attack_patterns := [''basic'', ''slash'', ''shield_block'', ''bone_shield''],
        ed_loot_table := [''bone_fragments'', ''rusted_sword'', ''skull'']\<rparr>),
    (''dark_cultist'', (mk_enemy_data ''Dark Cultist'' 5 55 10 7 12 75 (20, 40))
       \<lparr>ed_resistances := [(''dark'', 1/2)],
        ed_weaknesses := [(''holy'', 9/5), (''fire'', 6/5)],
        ed_attack_patterns := [''shadow_bolt'', ''basic'', ''life_drain'', ''curse''],
        ed_loot_table := [''cultist_robes'', ''dark_tome'', ''ritual_dagger'']\<rparr>),
    (''troll'', (mk_enemy_data ''Troll'' 7 120 20 12 6 120 (30, 60))
       \<lparr>ed_resistances := [(''physical'', 3/5), (''fire'', 1/2)],
        ed_weaknesses := [(''acid'', 3/2), (''fire'', 4/5)],
        ed_attack_patterns := [''club_smash'', ''basic'', ''regeneration'', ''rage''],
        ed_loot_table := [''troll_hide'', ''giant_club'', ''troll_blood'']\<rparr>),
    (''wraith'', (mk_enemy_data ''Wraith'' 8 85 18 15 14 150 (40, 80))
       \<lparr>ed_resistances := [(''physical'', 3/10), (''fire'', 1/2), (''ice'', 1/2)],
        ed_weaknesses := [(''holy'', 5/2), (''lightning'', 13/10)],
        ed_attack_patterns := [''life_drain'', ''invisibility'', ''scream'', ''life_drain''],
        ed_loot_table := [''ectoplasm'', ''soul_shard'', ''ethereal_dust'']\<rparr>),
    (''troll_king'', (mk_enemy_data ''Troll King'' 10 250 30 18 8 500 (200, 500))
       \<lparr>ed_resistances := [(''physical'', 1/2), (''fire'', 2/5)],
        ed_weaknesses := [(''acid'', 13/10)],
        ed_attack_patterns := [''mighty_smash'', ''roar'', ''earth_shake'', ''regeneration'', ''enrage''],
        ed_loot_table := [''troll_crown'', ''giant_tooth'', ''kingly_trophy'']\<rparr>),
    (''dragon'', (mk_enemy_data ''Young Dragon'' 12 400 40 25 12 1000 (500, 1000))
       \<lparr>ed_resistances := [(''physical'', 3/5), (''fire'', 1/5), (''ice'', 1/2)],
        ed_weaknesses := [(''lightning'', 13/10), (''holy'', 6/5)],
        ed_attack_patterns := [''fire_breath'', ''claw'', ''fly'', ''fire_breath'', ''fear''],
        ed_loot_table := [''dragon_scale'', ''dragon_heart'', ''golden_hoard'']\<rparr>)]"

text \<open>
  \<^verbatim>\<open>Enemy.__init__(enemy_type, level_mult, enemy_data)\<close>: \<open>gold_draw\<close> is the value of
  \<^verbatim>\<open>random.randint(gold_min, int(gold_max * level_mult))\<close>, which raises on an empty
  range; an unknown type raises \<^verbatim>\<open>KeyError\<close>.
\<close>

definition Enemy_init :: "string \<Rightarrow> rat \<Rightarrow> int \<Rightarrow> error + enemy" where
  "Enemy_init enemy_type level_mult gold_draw =
     (case map_of enemy_types_table enemy_type of
        None \<Rightarrow> Inl KeyError
      | Some d \<Rightarrow>
          (let (gold_min, gold_max) = ed_gold_reward d
           in if gold_min > py_int (fmul (of_int gold_max) level_mult) then Inl ValueError
              else Inr \<lparr>etype = enemy_type, ename = ed_name d,
                        max_health = py_int (fmul (of_int (base_health d)) level_mult),
                        health = py_int (fmul (of_int (base_health d)) level_mult),
                        damage = py_int (fmul (of_int (base_damage d)) level_mult),
                        defense = py_int (fmul (of_int (base_defense d)) level_mult),
                        speed = ed_speed d,
                        attack_patterns = ed_attack_patterns d,
                        pattern_index = 0,
                        status_effects = [],
                        xp_reward = py_int (fmul (of_int (ed_xp_reward d)) level_mult),
                        gold_reward = gold_draw,
                        resistances = map_of (ed_resistances d),
                        weaknesses = map_of (ed_weaknesses d),
                        loot_table = ed_loot_table d,
                        stunned = False\<rparr>))"

text \<open>
  \<^verbatim>\<open>start_combat(enemy_type, level_mult)\<close> on a system whose player dict is \<open>p\<close> and
  whose buff and debuff lists are \<open>bs\<close> and \<open>ds\<close> (it resets neither).
\<close>

definition start_combat ::
  "string \<Rightarrow> rat \<Rightarrow> int \<Rightarrow> player \<Rightarrow> buff list \<Rightarrow> debuff list \<Rightarrow> error + CombatSystem"
where
  "start_combat enemy_type level_mult gold_draw p bs ds =
     (case Enemy_init enemy_type level_mult gold_draw of
        Inl err \<Rightarrow> Inl err
      | Inr e \<Rightarrow>
          Inr (add_to_log (Description enemy_type)
                (add_to_log (CombatStarted (ename e))
                   \<lparr>player = p, enemy = e, state = PLAYER_TURN, turn_count = 0,
                    combat_log = [], player_buffs = bs, player_debuffs = ds\<rparr>)))"

subsection \<open>Sample sessions\<close>

text \<open>
  A player dict with the keys and start values of \<^verbatim>\<open>main.py\<close> (health 100, mana 50,
  strength 10, defense 10, level 1, 100 experience to the next level, 50 gold), who knows
  one ability and carries one potion.
\<close>

definition hero :: player where
  "hero = \<lparr>p_health = 100, p_max_health = 100, p_strength = 10, p_defense = 10, p_level = 1,
            p_xp = 0, p_xp_to_next = 100, p_gold = 50, p_mana = Some 50, p_speed = None,
            p_abilities = Some [''power_attack''], p_inventory = Some [''health_potion''],
            p_accuracy_mod = None\<rparr>"

text \<open>
  One set of draws: the basic attack hits for the middle of its range without a critical
  hit, the player's ability rolls 80, the flee draw is 0, no loot drops, and the
  enemy rolls 95 (above every accuracy below 95).
\<close>

definition draws :: rolls where
  "draws = \<lparr>hit_roll = 50, damage_roll = 10, crit_roll = 1, ability_roll = 80, flee_draw = 0,
             loot_draw = (\<lambda>i. 1/2), enemy_roll = 95\<rparr>"

text \<open>The goblin, the bandit, the skeleton, the troll and the dragon as
  \<^verbatim>\<open>Enemy.__init__\<close> spawns them at level multiplier 1.\<close>

definition goblin :: enemy where
  "goblin = \<lparr>etype = ''goblin'', ename = ''Goblin'', max_health = 25, health = 25, damage = 5,
              defense = 3, speed = 12, attack_patterns = [''basic'', ''basic'', ''dodge''],
              pattern_index = 0, status_effects = [], xp_reward = 15, gold_reward = 5,
              resistances = map_of [], weaknesses = map_of [(''physical'', 6/5)],
              loot_table = [''goblin_ear'', ''rusty_dagger'', ''copper_coin''],
              stunned = False\<rparr>"

definition bandit :: enemy where
  "bandit = \<lparr>etype = ''bandit'', ename = ''Bandit'', max_health = 40, health = 40, damage = 7,
              defense = 5, speed = 10,
              attack_patterns = [''basic'', ''stab'', ''basic'', ''intimidate''],
              pattern_index = 0, status_effects = [], xp_reward = 30, gold_reward = 15,
              resistances = map_of [], weaknesses = map_of [],
              loot_table = [''leather_armor'', ''short_sword'', ''gold_coins''],
              stunned = False\<rparr>"

definition skeleton :: enemy where
  "skeleton = \<lparr>etype = ''skeleton'', ename = ''Skeleton Warrior'', max_health = 50, health = 50,
                damage = 12, defense = 8, speed = 11,
                attack_patterns = [''basic'', ''slash'', ''shield_block'', ''bone_shield''],
                pattern_index = 0, status_effects = [], xp_reward = 55, gold_reward = 15,
                resistances = map_of [(''physical'', 7/10), (''poison'', 0)],
                weaknesses = map_of [(''holy'', 2), (''bludgeoning'', 13/10)],
                loot_table = [''bone_fragments'', ''rusted_sword'', ''skull''],
                stunned = False\<rparr>"

definition troll :: enemy where
  "troll = \<lparr>etype = ''troll'', ename = ''Troll'', max_health = 120, health = 120, damage = 20,
             defense = 12, speed = 6,
             attack_patterns = [''club_smash'', ''basic'', ''regeneration'', ''rage''],
             pattern_index = 0, status_effects = [], xp_reward = 120, gold_reward = 40,
             resistances = map_of [(''physical'', 3/5), (''fire'', 1/2)],
             weaknesses = map_of [(''acid'', 3/2), (''fire'', 4/5)],
             loot_table = [''troll_hide'', ''giant_club'', ''troll_blood''],
             stunned = False\<rparr>"

definition dragon :: enemy where
  "dragon = \<lparr>etype = ''dragon'', ename = ''Young Dragon'', max_health = 400, health = 400,
              damage = 40, defense = 25, speed = 12,
              attack_patterns = [''fire_breath'', ''claw'', ''fly'', ''fire_breath'', ''fear''],
              pattern_index = 0, status_effects = [], xp_reward = 1000, gold_reward = 700,
              resistances = map_of [(''physical'', 3/5), (''fire'', 1/5), (''ice'', 1/2)],
              weaknesses = map_of [(''lightning'', 13/10), (''holy'', 6/5)],
              loot_table = [''dragon_scale'', ''dragon_heart'', ''golden_hoard''],
              stunned = False\<rparr>"

text \<open>The session \<^verbatim>\<open>start_combat\<close> opens for a player \<open>p\<close> against an enemy \<open>e\<close> of
  type \<open>t\<close>.\<close>

definition fight :: "player \<Rightarrow> string \<Rightarrow> enemy \<Rightarrow> CombatSystem" where
  "fight p t e =
     \<lparr>player = p, enemy = e, state = PLAYER_TURN, turn_count = 0,
      combat_log = [CombatStarted (ename e), Description t],
      player_buffs = [], player_debuffs = []\<rparr>"

text \<open>Two entries of \<^verbatim>\<open>player_debuffs\<close> as \<^verbatim>\<open>apply_effect\<close> builds them: \<^verbatim>\<open>slow\<close> from
  the ability \<^verbatim>\<open>web\<close> and \<^verbatim>\<open>fear\<close> from the ability \<^verbatim>\<open>fear\<close>.\<close>

definition slowed :: debuff where
  "slowed = \<lparr>d_name = ''slow'', d_duration = 2, d_power = None\<rparr>"

definition frightened :: debuff where
  "frightened = \<lparr>d_name = ''fear'', d_duration = 2, d_power = None\<rparr>"

subsection \<open>Sessions that differ in the player's earlier debuffs\<close>

text \<open>The session \<open>s\<close> with the entries \<open>ds\<close> put in front of its \<^verbatim>\<open>player_debuffs\<close>.\<close>

definition prepend_debuffs :: "debuff list \<Rightarrow> CombatSystem \<Rightarrow> CombatSystem" where
  "prepend_debuffs ds s = s\<lparr>player_debuffs := ds @ player_debuffs s\<rparr>"

subsection \<open>Sessions that differ in the player's buffs\<close>

text \<open>The session \<open>s\<close> with the list \<open>bs\<close> as its \<^verbatim>\<open>player_buffs\<close>.\<close>

definition with_player_buffs :: "buff list \<Rightarrow> CombatSystem \<Rightarrow> CombatSystem" where
  "with_player_buffs bs s = s\<lparr>player_buffs := bs\<rparr>"

section \<open>Properties\<close>

text \<open>The definitions a run on concrete input unfolds.\<close>

lemmas engine_defs =
  process_player_turn_def player_action_def player_attack_def player_defend_def
  player_ability_def player_use_item_def player_flee_def flee_chance_def
  process_enemy_turn_def process_status_effects_def get_next_ability_def use_ability_def
  apply_effect_def take_damage_def heal_def is_alive_def apply_status_def add_to_log_def
  process_victory_def get_loot_def level_up_def process_defeat_def process_turn_def in_combat_def
  abilities_get_def abilities_def abilities_table_def mk_ability_def get_player_ability_def
  player_abilities_table_def get_item_effects_def item_effects_table_def
  status_effects_catalog_def status_effects_table_def combat_system_def DamageType_by_name_def
  upper_def lower_def lower_letters_def upper_letters_def py_int_def defending_def

lemmas sample_defs = hero_def draws_def goblin_def bandit_def troll_def dragon_def fight_def

subsection \<open>Rounding to doubles\<close>

text \<open>The search finds the exponent that the bounds determine.\<close>

lemma find_exp_eq:
  "q0 \<le> q \<Longrightarrow> q \<le> q0 + int k \<Longrightarrow> a < 2 powi (q + 53)
   \<Longrightarrow> q = q0 \<or> 2 powi (q + 52) \<le> a \<Longrightarrow> find_exp k a q0 = q"
proof (induction k arbitrary: q0)
  case 0
  then show ?case by simp
next
  case (Suc k)
  show ?case
  proof (cases "a < 2 powi (q0 + 53)")
    case True
    have "q = q0"
    proof (rule ccontr)
      assume "q \<noteq> q0"
      with Suc.prems have "q0 + 1 \<le> q" and "(2::rat) powi (q + 52) \<le> a" by auto
      have "(2::rat) powi (q0 + 53) \<le> 2 powi (q + 52)"
        using \<open>q0 + 1 \<le> q\<close> by (intro power_int_increasing) auto
      with True \<open>2 powi (q + 52) \<le> a\<close> show False by simp
    qed
    with True show ?thesis by simp
  next
    case False
    have "q \<noteq> q0" using False Suc.prems(3) by auto
    with Suc.prems have 1: "q0 + 1 \<le> q" "q \<le> (q0 + 1) + int k" by auto
    have 2: "q = q0 + 1 \<or> 2 powi (q + 52) \<le> a"
      using Suc.prems(4) \<open>q \<noteq> q0\<close> by auto
    from Suc.IH [OF 1 Suc.prems(3) 2] False show ?thesis by simp
  qed
qed

lemma fl_at:
  assumes "- 1074 \<le> q" "q \<le> 971" "\<bar>x\<bar> < 2 powi (q + 53)"
      and "q = - 1074 \<or> 2 powi (q + 52) \<le> \<bar>x\<bar>"
  shows "fl x = of_int (rhe (x / 2 powi q)) * 2 powi q"
proof -
  have "find_exp 2045 \<bar>x\<bar> (- 1074) = q"
    using assms by (intro find_exp_eq) auto
  then show ?thesis by (simp add: fl_def ulp_exp_def)
qed

lemma rhe_near:
  assumes "\<bar>y - of_int m\<bar> < 1/2"
  shows "rhe y = m"
proof (cases "of_int m \<le> y")
  case True
  with assms have "\<lfloor>y\<rfloor> = m" by (intro floor_unique) auto
  with assms True show ?thesis by (simp add: rhe_def Let_def)
next
  case False
  with assms have f: "\<lfloor>y\<rfloor> = m - 1" by (intro floor_unique) auto
  from assms False have "1/2 < y - of_int (m - 1)" by auto
  with f show ?thesis by (simp add: rhe_def Let_def)
qed

lemma fl_near:
  assumes "- 1074 \<le> q" "q \<le> 971" "\<bar>x\<bar> < 2 powi (q + 53)"
      and "q = - 1074 \<or> 2 powi (q + 52) \<le> \<bar>x\<bar>"
      and "\<bar>x / 2 powi q - of_int m\<bar> < 1/2"
  shows "fl x = of_int m * 2 powi q"
  using fl_at [OF assms(1-4)] rhe_near [OF assms(5)] by simp

lemma fl_0 [simp]: "fl 0 = 0"
  by (simp add: fl_def rhe_def)

lemma find_exp_lower: "q0 \<le> find_exp k a q0"
proof (induction k arbitrary: q0)
  case 0
  show ?case by simp
next
  case (Suc k)
  from Suc [of "q0 + 1"] show ?case by simp
qed

lemma find_exp_upper: "find_exp k a q0 \<le> q0 + int k"
proof (induction k arbitrary: q0)
  case 0
  show ?case by simp
next
  case (Suc k)
  from Suc [of "q0 + 1"] show ?case by simp
qed

lemma find_exp_least:
  "q0 \<le> q' \<Longrightarrow> a < 2 powi (q' + 53) \<Longrightarrow> find_exp k a q0 \<le> q'"
proof (induction k arbitrary: q0)
  case 0
  then show ?case by simp
next
  case (Suc k)
  show ?case
  proof (cases "a < 2 powi (q0 + 53)")
    case True
    with Suc.prems show ?thesis by simp
  next
    case False
    with Suc.prems have "q' \<noteq> q0" by auto
    with Suc.prems have "q0 + 1 \<le> q'" by simp
    from Suc.IH [OF this Suc.prems(2)] False show ?thesis by simp
  qed
qed

lemma find_exp_below:
  "find_exp k a q0 \<noteq> q0 \<Longrightarrow> 2 powi (find_exp k a q0 + 52) \<le> a"
proof (induction k arbitrary: q0)
  case 0
  then show ?case by simp
next
  case (Suc k)
  from Suc.prems have no: "\<not> a < 2 powi (q0 + 53)" by auto
  then have eq: "find_exp (Suc k) a q0 = find_exp k a (q0 + 1)" by simp
  show ?case
  proof (cases "find_exp k a (q0 + 1) = q0 + 1")
    case True
    with no eq show ?thesis by (simp add: add.commute)
  next
    case False
    from Suc.IH [OF False] eq show ?thesis by simp
  qed
qed

lemma find_exp_above:
  "find_exp k a q0 < q0 + int k \<Longrightarrow> a < 2 powi (find_exp k a q0 + 53)"
proof (induction k arbitrary: q0)
  case 0
  then show ?case by simp
next
  case (Suc k)
  show ?case
  proof (cases "a < 2 powi (q0 + 53)")
    case True
    then show ?thesis by simp
  next
    case False
    with Suc.prems have "find_exp k a (q0 + 1) < (q0 + 1) + int k" by simp
    from Suc.IH [OF this] False show ?thesis by simp
  qed
qed

lemma ulp_exp_range: "- 1074 \<le> ulp_exp a" "ulp_exp a \<le> 971"
  using find_exp_lower [of "- 1074" 2045 a] find_exp_upper [of 2045 a "- 1074"]
  by (simp_all add: ulp_exp_def)

lemma ulp_exp_least: "- 1074 \<le> q' \<Longrightarrow> a < 2 powi (q' + 53) \<Longrightarrow> ulp_exp a \<le> q'"
  unfolding ulp_exp_def by (rule find_exp_least)

lemma ulp_exp_below: "ulp_exp a \<noteq> - 1074 \<Longrightarrow> 2 powi (ulp_exp a + 52) \<le> a"
  unfolding ulp_exp_def by (rule find_exp_below)

lemma ulp_exp_above: "ulp_exp a < 971 \<Longrightarrow> a < 2 powi (ulp_exp a + 53)"
  unfolding ulp_exp_def using find_exp_above [of 2045 a "- 1074"] by simp

lemma rhe_of_int [simp]: "rhe (of_int j) = j"
  by (simp add: rhe_def)

lemma rhe_ge_floor: "\<lfloor>y\<rfloor> \<le> rhe y"
  by (simp add: rhe_def Let_def)

lemma pow2_nonpos: "q \<le> 0 \<Longrightarrow> (2::rat) powi q = 1 / 2 ^ nat (- q)"
  by (cases "q = 0") (simp_all add: power_int_def field_simps)

lemma pow2_nonneg: "0 \<le> q \<Longrightarrow> (2::rat) powi q = 2 ^ nat q"
  by (simp add: power_int_def)

text \<open>A value that is an integer multiple of a unit no finer than its own rounds to itself.\<close>

lemma fl_multiple:
  assumes "ulp_exp \<bar>of_int j * 2 powi q\<bar> \<le> q"
  shows "fl (of_int j * 2 powi q) = of_int j * 2 powi q"
proof -
  define v :: rat where "v = of_int j * 2 powi q"
  define p where "p = ulp_exp \<bar>v\<bar>"
  define N :: int where "N = 2 ^ nat (q - p)"
  have pq: "p \<le> q" using assms by (simp add: p_def v_def)
  have nz: "(2::rat) powi p \<noteq> 0" by simp
  have "(2::rat) powi q = 2 powi (q - p) * 2 powi p"
    by (simp add: power_int_add [symmetric])
  also have "(2::rat) powi (q - p) = of_int N"
    using pq by (simp add: pow2_nonneg N_def)
  finally have split: "(2::rat) powi q = of_int N * 2 powi p" .
  have "v / 2 powi p = of_int (j * N)"
    using nz by (simp add: v_def split)
  then have "rhe (v / 2 powi p) = j * N"
    by (simp only: rhe_of_int)
  then have "fl v = of_int (j * N) * 2 powi p"
    by (simp add: fl_def Let_def p_def)
  also have "\<dots> = v"
    by (simp add: v_def split)
  finally show ?thesis by (simp add: v_def)
qed

lemma fl_of_int:
  assumes "\<bar>n\<bar> < 2 ^ 53"
  shows "fl (of_int n) = of_int n"
proof -
  have "\<bar>of_int n :: rat\<bar> < 2 powi (0 + 53)"
  proof -
    have "(of_int \<bar>n\<bar> :: rat) < of_int (2 ^ 53)" using assms by (simp only: of_int_less_iff)
    then show ?thesis by simp
  qed
  then have "ulp_exp \<bar>of_int n :: rat\<bar> \<le> 0"
    by (intro ulp_exp_least) auto
  then show ?thesis
    using fl_multiple [of n 0] by simp
qed

lemma fl_1 [simp]: "fl 1 = 1"
  using fl_of_int [of 1] by simp

lemma fl_numeral: "numeral k < (2::int) ^ 53 \<Longrightarrow> fl (numeral k) = numeral k"
  using fl_of_int [of "numeral k"] by simp

lemma rhe_le_ceiling: "rhe y \<le> \<lceil>y\<rceil>"
proof (cases "y = of_int \<lfloor>y\<rfloor>")
  case True
  then have "rhe y = \<lfloor>y\<rfloor>" by (metis rhe_of_int)
  then show ?thesis by (simp add: floor_le_ceiling)
next
  case False
  then have "\<lceil>y\<rceil> = \<lfloor>y\<rfloor> + 1"
    by (metis ceiling_altdef)
  then show ?thesis by (simp add: rhe_def Let_def)
qed

lemma rhe_abs_bound:
  assumes "\<bar>y\<bar> < of_int N"
  shows "\<bar>rhe y\<bar> \<le> N"
proof -
  have "y \<le> of_int N" "of_int (- N) \<le> y" using assms by auto
  then have "\<lceil>y\<rceil> \<le> N" "- N \<le> \<lfloor>y\<rfloor>"
    by (simp_all add: ceiling_le_iff le_floor_iff)
  with rhe_le_ceiling [of y] rhe_ge_floor [of y] show ?thesis by linarith
qed

lemma fl_fl [simp]: "fl (fl x) = fl x"
proof -
  define q where "q = ulp_exp \<bar>x\<bar>"
  define m where "m = rhe (x / 2 powi q)"
  have flx: "fl x = of_int m * 2 powi q"
    by (simp add: fl_def Let_def q_def m_def)
  have range: "- 1074 \<le> q" "q \<le> 971"
    using ulp_exp_range [of "\<bar>x\<bar>"] by (simp_all add: q_def)
  have pos: "(0::rat) < 2 powi q" by simp
  show ?thesis
  proof (cases "q = 971")
    case True
    then have "ulp_exp \<bar>of_int m * 2 powi q\<bar> \<le> q"
      using ulp_exp_range(2) [of "\<bar>of_int m * 2 powi q\<bar>"] by simp
    from fl_multiple [OF this] show ?thesis by (simp add: flx)
  next
    case False
    with range have "q < 971" by simp
    then have "\<bar>x\<bar> < 2 powi (q + 53)"
      using ulp_exp_above [of "\<bar>x\<bar>"] by (simp add: q_def)
    also have "(2::rat) powi (q + 53) = 2 powi q * of_int (2 ^ 53)"
      by (simp add: power_int_add)
    finally have "\<bar>x / 2 powi q\<bar> < of_int (2 ^ 53)"
      using pos by (simp add: field_simps)
    then have mb: "\<bar>m\<bar> \<le> 2 ^ 53"
      unfolding m_def by (rule rhe_abs_bound)
    show ?thesis
    proof (cases "\<bar>m\<bar> = 2 ^ 53")
      case False
      with mb have "\<bar>m\<bar> < 2 ^ 53" by simp
      then have "(of_int \<bar>m\<bar> :: rat) < of_int (2 ^ 53)" by (simp only: of_int_less_iff)
      then have "(of_int \<bar>m\<bar> :: rat) * 2 powi q < of_int (2 ^ 53) * 2 powi q"
        using pos by (intro mult_strict_right_mono)
      then have "\<bar>(of_int m :: rat) * 2 powi q\<bar> < of_int (2 ^ 53) * 2 powi q"
        by (simp add: abs_mult)
      also have "\<dots> = 2 powi (q + 53)" by (simp add: power_int_add)
      finally have "ulp_exp \<bar>of_int m * 2 powi q\<bar> \<le> q"
        using range by (intro ulp_exp_least) auto
      from fl_multiple [OF this] show ?thesis by (simp add: flx)
    next
      case True
      define j :: int where "j = (if 0 \<le> m then 2 ^ 52 else - (2 ^ 52))"
      have mj: "m = 2 * j" using True by (auto simp: j_def)
      have aj: "\<bar>of_int j :: rat\<bar> = of_int (2 ^ 52)" by (simp add: j_def)
      have eq: "(of_int m :: rat) * 2 powi q = of_int j * 2 powi (q + 1)"
        by (simp add: mj power_int_add)
      have "\<bar>of_int j * (2::rat) powi (q + 1)\<bar> = of_int (2 ^ 52) * 2 powi (q + 1)"
        by (simp add: abs_mult aj del: of_int_power of_int_numeral)
      also have "\<dots> = 2 powi (q + 53)" by (simp add: power_int_add)
      also have "\<dots> < 2 powi (q + 1 + 53)"
        by (intro power_int_strict_increasing) auto
      finally have "ulp_exp \<bar>of_int j * 2 powi (q + 1)\<bar> \<le> q + 1"
        using range by (intro ulp_exp_least) auto
      from fl_multiple [OF this] show ?thesis by (simp add: flx eq)
    qed
  qed
qed

lemma fl_ge_int:
  assumes "0 < k" "k \<le> 2 ^ 53" "of_int k \<le> x"
  shows "of_int k \<le> fl x"
proof -
  define q where "q = ulp_exp \<bar>x\<bar>"
  have xp: "0 < x" "\<bar>x\<bar> = x" using assms by auto
  have pos: "(0::rat) < 2 powi q" by simp
  have flx: "fl x = of_int (rhe (x / 2 powi q)) * 2 powi q"
    by (simp add: fl_def Let_def q_def)
  show ?thesis
  proof (cases "q \<le> 0")
    case True
    define N :: int where "N = 2 ^ nat (- q)"
    have pq: "(2::rat) powi q = 1 / of_int N"
      using True by (simp add: pow2_nonpos N_def)
    have Np: "0 < N" by (simp add: N_def)
    have "of_int (k * N) \<le> x / 2 powi q"
      using assms(3) Np by (simp add: pq mult_right_mono)
    then have "k * N \<le> \<lfloor>x / 2 powi q\<rfloor>" by (simp only: le_floor_iff)
    from this rhe_ge_floor [of "x / 2 powi q"] have "k * N \<le> rhe (x / 2 powi q)"
      by (rule order_trans)
    then have "(of_int (k * N) :: rat) \<le> of_int (rhe (x / 2 powi q))"
      by (simp only: of_int_le_iff)
    then have "of_int (k * N) / of_int N \<le> of_int (rhe (x / 2 powi q)) / (of_int N :: rat)"
      using Np by (intro divide_right_mono) auto
    then show ?thesis using Np by (simp add: flx pq)
  next
    case False
    then have q1: "1 \<le> q" by simp
    then have "q \<noteq> - 1074" by simp
    then have "2 powi (q + 52) \<le> x"
      using ulp_exp_below [of "\<bar>x\<bar>"] xp by (simp add: q_def)
    also have "(2::rat) powi (q + 52) = 2 powi q * of_int (2 ^ 52)"
      by (simp add: power_int_add)
    finally have "of_int (2 ^ 52) \<le> x / 2 powi q"
      using pos by (simp add: field_simps)
    then have "(2::int) ^ 52 \<le> \<lfloor>x / 2 powi q\<rfloor>" by (simp only: le_floor_iff)
    from this rhe_ge_floor [of "x / 2 powi q"] have "(2::int) ^ 52 \<le> rhe (x / 2 powi q)"
      by (rule order_trans)
    then have "(of_int (2 ^ 52) :: rat) \<le> of_int (rhe (x / 2 powi q))"
      by (simp only: of_int_le_iff)
    moreover have "(2::rat) powi 1 \<le> 2 powi q"
      using q1 by (intro power_int_increasing) auto
    ultimately have "(of_int (2 ^ 52) :: rat) * 2 powi 1 \<le> of_int (rhe (x / 2 powi q)) * 2 powi q"
      by (intro mult_mono) auto
    then have "(2::rat) ^ 53 \<le> fl x" by (simp add: flx)
    moreover have "(of_int k :: rat) \<le> of_int (2 ^ 53)"
      using assms(2) by (simp only: of_int_le_iff)
    ultimately show ?thesis by simp
  qed
qed

lemma rhe_tie:
  assumes "y = of_int m + 1/2"
  shows "rhe y = (if even m then m else m + 1)"
proof -
  have "\<lfloor>y\<rfloor> = m" using assms by (intro floor_unique) auto
  with assms show ?thesis by (simp add: rhe_def Let_def)
qed

lemma fl_tie:
  assumes "- 1074 \<le> q" "q \<le> 971" "\<bar>x\<bar> < 2 powi (q + 53)"
      and "q = - 1074 \<or> 2 powi (q + 52) \<le> \<bar>x\<bar>"
      and "x / 2 powi q = of_int m + 1/2"
  shows "fl x = of_int (if even m then m else m + 1) * 2 powi q"
  using fl_at [OF assms(1-4)] rhe_tie [OF assms(5)] by simp

text \<open>Products that need no table: by 1.0 and by 0, of a small integer.\<close>

lemma fmul_one_left: "fmul 1 x = fl x"
  by (simp add: fmul_def)

lemma fmul_zero_right: "fmul x 0 = 0"
  by (simp add: fmul_def)

lemma fmul_numeral_one: "numeral k < (2::int) ^ 53 \<Longrightarrow> fmul (numeral k) 1 = numeral k"
  by (simp add: fmul_def fl_numeral)

lemma fmul_fmul_one: "fmul (fmul 1 x) y = fmul x y"
  by (simp add: fmul_def)

lemma fl_fmul: "fl (fmul x y) = fmul x y"
  by (simp add: fmul_def)

lemma py_int_pos_iff: "0 < py_int x \<longleftrightarrow> 1 \<le> x"
proof (cases "0 \<le> x")
  case True
  have "0 < \<lfloor>x\<rfloor> \<longleftrightarrow> 1 \<le> x" by (simp add: floor_less_iff less_floor_iff)
  with True show ?thesis by (simp add: py_int_def)
next
  case False
  then have "\<lceil>x\<rceil> \<le> 0" by (simp add: ceiling_le_iff)
  with False show ?thesis by (simp add: py_int_def)
qed

lemma py_int_between:
  assumes "0 \<le> n" "of_int n \<le> x" "x < of_int n + 1"
  shows "py_int x = n"
proof -
  have "\<lfloor>x\<rfloor> = n" using assms by (intro floor_unique) auto
  moreover have "0 \<le> x" using assms by (meson of_int_0_le_iff order_trans)
  ultimately show ?thesis by (simp add: py_int_def)
qed

subsection \<open>The float operations of the sample runs\<close>

lemma fmul_5_scratch: "fmul 5 (4 / 5) = 4"
proof -
    have f1: "fl 5 = 5"
      using fl_near [of "- 50" "5" "5629499534213120"] by simp
    have f2: "fl (4 / 5) = 3602879701896397 / 4503599627370496"
      using fl_near [of "- 53" "4 / 5" "7205759403792794"] by simp
    have f3: "fl (5 * (3602879701896397 / 4503599627370496)) = 4"
      using fl_near [of "- 50" "5 * (3602879701896397 / 4503599627370496)" "4503599627370496"] by simp
    have f4: "fmul 5 (4 / 5) = 4"
      by (simp only: fmul_def f1 f2 f3)
    show ?thesis by (rule f4)
qed

lemma fmul_10_scratch: "fmul 10 (4 / 5) = 8"
proof -
    have f1: "fl 10 = 10"
      using fl_near [of "- 49" "10" "5629499534213120"] by simp
    have f2: "fl (4 / 5) = 3602879701896397 / 4503599627370496"
      using fl_near [of "- 53" "4 / 5" "7205759403792794"] by simp
    have f3: "fl (10 * (3602879701896397 / 4503599627370496)) = 8"
      using fl_near [of "- 49" "10 * (3602879701896397 / 4503599627370496)" "4503599627370496"] by simp
    have f4: "fmul 10 (4 / 5) = 8"
      by (simp only: fmul_def f1 f2 f3)
    show ?thesis by (rule f4)
qed

lemma fmul_1_scratch: "fmul 1 (4 / 5) = 3602879701896397 / 4503599627370496"
proof -
    have f1: "fl 1 = 1"
      using fl_near [of "- 52" "1" "4503599627370496"] by simp
    have f2: "fl (4 / 5) = 3602879701896397 / 4503599627370496"
      using fl_near [of "- 53" "4 / 5" "7205759403792794"] by simp
    have f3: "fl (1 * (3602879701896397 / 4503599627370496)) = 3602879701896397 / 4503599627370496"
      using fl_near [of "- 53" "1 * (3602879701896397 / 4503599627370496)" "7205759403792794"] by simp
    have f4: "fmul 1 (4 / 5) = 3602879701896397 / 4503599627370496"
      by (simp only: fmul_def f1 f2 f3)
    show ?thesis by (rule f4)
qed

lemma fmul_10_goblin: "fmul 10 (fmul 1 (6 / 5)) = 12"
proof -
    have f1: "fl 1 = 1"
      using fl_near [of "- 52" "1" "4503599627370496"] by simp
    have f2: "fl (6 / 5) = 5404319552844595 / 4503599627370496"
      using fl_near [of "- 52" "6 / 5" "5404319552844595"] by simp
    have f3: "fl (1 * (5404319552844595 / 4503599627370496)) = 5404319552844595 / 4503599627370496"
      using fl_near [of "- 52" "1 * (5404319552844595 / 4503599627370496)" "5404319552844595"] by simp
    have f4: "fmul 1 (6 / 5) = 5404319552844595 / 4503599627370496"
      by (simp only: fmul_def f1 f2 f3)
    have f5: "fl 10 = 10"
      using fl_near [of "- 49" "10" "5629499534213120"] by simp
    have f6: "fl (5404319552844595 / 4503599627370496) = 5404319552844595 / 4503599627370496"
      using fl_near [of "- 52" "5404319552844595 / 4503599627370496" "5404319552844595"] by simp
    have f7: "fl (10 * (5404319552844595 / 4503599627370496)) = 12"
      using fl_near [of "- 49" "10 * (5404319552844595 / 4503599627370496)" "6755399441055744"] by simp
    have f8: "fmul 10 (5404319552844595 / 4503599627370496) = 12"
      by (simp only: fmul_def f5 f6 f7)
    have f9: "fmul 10 (fmul 1 (6 / 5)) = 12"
      by (simp only: f4 f8)
    show ?thesis by (rule f9)
qed

lemma fmul_25_troll_fire: "fmul 25 (fmul (fmul 1 (1 / 2)) (4 / 5)) = 10"
proof -
    have f1: "fl 1 = 1"
      using fl_near [of "- 52" "1" "4503599627370496"] by simp
    have f2: "fl (1 / 2) = 1 / 2"
      using fl_near [of "- 53" "1 / 2" "4503599627370496"] by simp
    have f3: "fl (1 * (1 / 2)) = 1 / 2"
      using fl_near [of "- 53" "1 * (1 / 2)" "4503599627370496"] by simp
    have f4: "fmul 1 (1 / 2) = 1 / 2"
      by (simp only: fmul_def f1 f2 f3)
    have f5: "fl (1 / 2) = 1 / 2"
      using fl_near [of "- 53" "1 / 2" "4503599627370496"] by simp
    have f6: "fl (4 / 5) = 3602879701896397 / 4503599627370496"
      using fl_near [of "- 53" "4 / 5" "7205759403792794"] by simp
    have f7: "fl ((1 / 2) * (3602879701896397 / 4503599627370496)) = 3602879701896397 / 9007199254740992"
      using fl_near [of "- 54" "(1 / 2) * (3602879701896397 / 4503599627370496)" "7205759403792794"] by simp
    have f8: "fmul (1 / 2) (4 / 5) = 3602879701896397 / 9007199254740992"
      by (simp only: fmul_def f5 f6 f7)
    have f9: "fmul (fmul 1 (1 / 2)) (4 / 5) = 3602879701896397 / 9007199254740992"
      by (simp only: f4 f8)
    have f10: "fl 25 = 25"
      using fl_near [of "- 48" "25" "7036874417766400"] by simp
    have f11: "fl (3602879701896397 / 9007199254740992) = 3602879701896397 / 9007199254740992"
      using fl_near [of "- 54" "3602879701896397 / 9007199254740992" "7205759403792794"] by simp
    have f12: "fl (25 * (3602879701896397 / 9007199254740992)) = 10"
      using fl_near [of "- 49" "25 * (3602879701896397 / 9007199254740992)" "5629499534213120"] by simp
    have f13: "fmul 25 (3602879701896397 / 9007199254740992) = 10"
      by (simp only: fmul_def f10 f11 f12)
    have f14: "fmul 25 (fmul (fmul 1 (1 / 2)) (4 / 5)) = 10"
      by (simp only: f9 f13)
    show ?thesis by (rule f14)
qed

lemma flee_chance_goblin: "fadd (3 / 10) (fmul (- 2) (1 / 20)) = 7205759403792793 / 36028797018963968"
proof -
    have f1: "fl (- 2) = - 2"
      using fl_near [of "- 51" "- 2" "- 4503599627370496"] by simp
    have f2: "fl (1 / 20) = 3602879701896397 / 72057594037927936"
      using fl_near [of "- 57" "1 / 20" "7205759403792794"] by simp
    have f3: "fl ((- 2) * (3602879701896397 / 72057594037927936)) = - (3602879701896397 / 36028797018963968)"
      using fl_near [of "- 56" "(- 2) * (3602879701896397 / 72057594037927936)" "- 7205759403792794"] by simp
    have f4: "fmul (- 2) (1 / 20) = - (3602879701896397 / 36028797018963968)"
      by (simp only: fmul_def f1 f2 f3)
    have f5: "fl (3 / 10) = 5404319552844595 / 18014398509481984"
      using fl_near [of "- 54" "3 / 10" "5404319552844595"] by simp
    have f6: "fl (- (3602879701896397 / 36028797018963968)) = - (3602879701896397 / 36028797018963968)"
      using fl_near [of "- 56" "- (3602879701896397 / 36028797018963968)" "- 7205759403792794"] by simp
    have f7: "fl ((5404319552844595 / 18014398509481984) + (- (3602879701896397 / 36028797018963968))) = 7205759403792793 / 36028797018963968"
      using fl_near [of "- 55" "(5404319552844595 / 18014398509481984) + (- (3602879701896397 / 36028797018963968))" "7205759403792793"] by simp
    have f8: "fadd (3 / 10) (- (3602879701896397 / 36028797018963968)) = 7205759403792793 / 36028797018963968"
      by (simp only: fadd_def f5 f6 f7)
    have f9: "fadd (3 / 10) (fmul (- 2) (1 / 20)) = 7205759403792793 / 36028797018963968"
      by (simp only: f4 f8)
    show ?thesis by (rule f9)
qed

lemma fmul_90_skeleton: "fmul 90 (fmul 1 (7 / 10)) = 8866461766385663 / 140737488355328"
proof -
    have f1: "fl 1 = 1"
      using fl_near [of "- 52" "1" "4503599627370496"] by simp
    have f2: "fl (7 / 10) = 3152519739159347 / 4503599627370496"
      using fl_near [of "- 53" "7 / 10" "6305039478318694"] by simp
    have f3: "fl (1 * (3152519739159347 / 4503599627370496)) = 3152519739159347 / 4503599627370496"
      using fl_near [of "- 53" "1 * (3152519739159347 / 4503599627370496)" "6305039478318694"] by simp
    have f4: "fmul 1 (7 / 10) = 3152519739159347 / 4503599627370496"
      by (simp only: fmul_def f1 f2 f3)
    have f5: "fl 90 = 90"
      using fl_near [of "- 46" "90" "6333186975989760"] by simp
    have f6: "fl (3152519739159347 / 4503599627370496) = 3152519739159347 / 4503599627370496"
      using fl_near [of "- 53" "3152519739159347 / 4503599627370496" "6305039478318694"] by simp
    have f7: "fl (90 * (3152519739159347 / 4503599627370496)) = 8866461766385663 / 140737488355328"
      using fl_near [of "- 47" "90 * (3152519739159347 / 4503599627370496)" "8866461766385663"] by simp
    have f8: "fmul 90 (3152519739159347 / 4503599627370496) = 8866461766385663 / 140737488355328"
      by (simp only: fmul_def f5 f6 f7)
    have f9: "fmul 90 (fmul 1 (7 / 10)) = 8866461766385663 / 140737488355328"
      by (simp only: f4 f8)
    show ?thesis by (rule f9)
qed

lemma fmul_20_both: "fmul 20 (fmul (fmul 1 (7 / 10)) (3 / 2)) = 5910974510923775 / 281474976710656"
proof -
    have f1: "fl 1 = 1"
      using fl_near [of "- 52" "1" "4503599627370496"] by simp
    have f2: "fl (7 / 10) = 3152519739159347 / 4503599627370496"
      using fl_near [of "- 53" "7 / 10" "6305039478318694"] by simp
    have f3: "fl (1 * (3152519739159347 / 4503599627370496)) = 3152519739159347 / 4503599627370496"
      using fl_near [of "- 53" "1 * (3152519739159347 / 4503599627370496)" "6305039478318694"] by simp
    have f4: "fmul 1 (7 / 10) = 3152519739159347 / 4503599627370496"
      by (simp only: fmul_def f1 f2 f3)
    have f5: "fl (3152519739159347 / 4503599627370496) = 3152519739159347 / 4503599627370496"
      using fl_near [of "- 53" "3152519739159347 / 4503599627370496" "6305039478318694"] by simp
    have f6: "fl (3 / 2) = 3 / 2"
      using fl_near [of "- 52" "3 / 2" "6755399441055744"] by simp
    have f7: "fl ((3152519739159347 / 4503599627370496) * (3 / 2)) = 1182194902184755 / 1125899906842624"
      using fl_tie [of "- 52" "(3152519739159347 / 4503599627370496) * (3 / 2)" "4728779608739020"] by simp
    have f8: "fmul (3152519739159347 / 4503599627370496) (3 / 2) = 1182194902184755 / 1125899906842624"
      by (simp only: fmul_def f5 f6 f7)
    have f9: "fmul (fmul 1 (7 / 10)) (3 / 2) = 1182194902184755 / 1125899906842624"
      by (simp only: f4 f8)
    have f10: "fl 20 = 20"
      using fl_near [of "- 48" "20" "5629499534213120"] by simp
    have f11: "fl (1182194902184755 / 1125899906842624) = 1182194902184755 / 1125899906842624"
      using fl_near [of "- 52" "1182194902184755 / 1125899906842624" "4728779608739020"] by simp
    have f12: "fl (20 * (1182194902184755 / 1125899906842624)) = 5910974510923775 / 281474976710656"
      using fl_near [of "- 48" "20 * (1182194902184755 / 1125899906842624)" "5910974510923775"] by simp
    have f13: "fmul 20 (1182194902184755 / 1125899906842624) = 5910974510923775 / 281474976710656"
      by (simp only: fmul_def f10 f11 f12)
    have f14: "fmul 20 (fmul (fmul 1 (7 / 10)) (3 / 2)) = 5910974510923775 / 281474976710656"
      by (simp only: f9 f13)
    show ?thesis by (rule f14)
qed

lemma fmul_45_cleave: "fmul 45 (7 / 5) = 8866461766385663 / 140737488355328"
proof -
    have f1: "fl 45 = 45"
      using fl_near [of "- 47" "45" "6333186975989760"] by simp
    have f2: "fl (7 / 5) = 3152519739159347 / 2251799813685248"
      using fl_near [of "- 52" "7 / 5" "6305039478318694"] by simp
    have f3: "fl (45 * (3152519739159347 / 2251799813685248)) = 8866461766385663 / 140737488355328"
      using fl_near [of "- 47" "45 * (3152519739159347 / 2251799813685248)" "8866461766385663"] by simp
    have f4: "fmul 45 (7 / 5) = 8866461766385663 / 140737488355328"
      by (simp only: fmul_def f1 f2 f3)
    show ?thesis by (rule f4)
qed

lemma flee_chance_fast: "fadd (3 / 10) (fmul 6 (1 / 20)) = 1351079888211149 / 2251799813685248"
proof -
    have f1: "fl 6 = 6"
      using fl_near [of "- 50" "6" "6755399441055744"] by simp
    have f2: "fl (1 / 20) = 3602879701896397 / 72057594037927936"
      using fl_near [of "- 57" "1 / 20" "7205759403792794"] by simp
    have f3: "fl (6 * (3602879701896397 / 72057594037927936)) = 1351079888211149 / 4503599627370496"
      using fl_tie [of "- 54" "6 * (3602879701896397 / 72057594037927936)" "5404319552844595"] by simp
    have f4: "fmul 6 (1 / 20) = 1351079888211149 / 4503599627370496"
      by (simp only: fmul_def f1 f2 f3)
    have f5: "fl (3 / 10) = 5404319552844595 / 18014398509481984"
      using fl_near [of "- 54" "3 / 10" "5404319552844595"] by simp
    have f6: "fl (1351079888211149 / 4503599627370496) = 1351079888211149 / 4503599627370496"
      using fl_near [of "- 54" "1351079888211149 / 4503599627370496" "5404319552844596"] by simp
    have f7: "fl ((5404319552844595 / 18014398509481984) + (1351079888211149 / 4503599627370496)) = 1351079888211149 / 2251799813685248"
      using fl_tie [of "- 53" "(5404319552844595 / 18014398509481984) + (1351079888211149 / 4503599627370496)" "5404319552844595"] by simp
    have f8: "fadd (3 / 10) (1351079888211149 / 4503599627370496) = 1351079888211149 / 2251799813685248"
      by (simp only: fadd_def f5 f6 f7)
    have f9: "fadd (3 / 10) (fmul 6 (1 / 20)) = 1351079888211149 / 2251799813685248"
      by (simp only: f4 f8)
    show ?thesis by (rule f9)
qed

lemma fmul_troll_fire: "fmul (1 / 2) (4 / 5) = 3602879701896397 / 9007199254740992"
proof -
    have f1: "fl (1 / 2) = 1 / 2"
      using fl_near [of "- 53" "1 / 2" "4503599627370496"] by simp
    have f2: "fl (4 / 5) = 3602879701896397 / 4503599627370496"
      using fl_near [of "- 53" "4 / 5" "7205759403792794"] by simp
    have f3: "fl ((1 / 2) * (3602879701896397 / 4503599627370496)) = 3602879701896397 / 9007199254740992"
      using fl_near [of "- 54" "(1 / 2) * (3602879701896397 / 4503599627370496)" "7205759403792794"] by simp
    have f4: "fmul (1 / 2) (4 / 5) = 3602879701896397 / 9007199254740992"
      by (simp only: fmul_def f1 f2 f3)
    show ?thesis by (rule f4)
qed

lemma fmul_25_troll: "fmul 25 (fmul (1 / 2) (4 / 5)) = 10"
proof -
    have f1: "fl (1 / 2) = 1 / 2"
      using fl_near [of "- 53" "1 / 2" "4503599627370496"] by simp
    have f2: "fl (4 / 5) = 3602879701896397 / 4503599627370496"
      using fl_near [of "- 53" "4 / 5" "7205759403792794"] by simp
    have f3: "fl ((1 / 2) * (3602879701896397 / 4503599627370496)) = 3602879701896397 / 9007199254740992"
      using fl_near [of "- 54" "(1 / 2) * (3602879701896397 / 4503599627370496)" "7205759403792794"] by simp
    have f4: "fmul (1 / 2) (4 / 5) = 3602879701896397 / 9007199254740992"
      by (simp only: fmul_def f1 f2 f3)
    have f5: "fl 25 = 25"
      using fl_near [of "- 48" "25" "7036874417766400"] by simp
    have f6: "fl (3602879701896397 / 9007199254740992) = 3602879701896397 / 9007199254740992"
      using fl_near [of "- 54" "3602879701896397 / 9007199254740992" "7205759403792794"] by simp
    have f7: "fl (25 * (3602879701896397 / 9007199254740992)) = 10"
      using fl_near [of "- 49" "25 * (3602879701896397 / 9007199254740992)" "5629499534213120"] by simp
    have f8: "fmul 25 (3602879701896397 / 9007199254740992) = 10"
      by (simp only: fmul_def f5 f6 f7)
    have f9: "fmul 25 (fmul (1 / 2) (4 / 5)) = 10"
      by (simp only: f4 f8)
    show ?thesis by (rule f9)
qed

lemma fmul_both: "fmul (7 / 10) (3 / 2) = 1182194902184755 / 1125899906842624"
proof -
    have f1: "fl (7 / 10) = 3152519739159347 / 4503599627370496"
      using fl_near [of "- 53" "7 / 10" "6305039478318694"] by simp
    have f2: "fl (3 / 2) = 3 / 2"
      using fl_near [of "- 52" "3 / 2" "6755399441055744"] by simp
    have f3: "fl ((3152519739159347 / 4503599627370496) * (3 / 2)) = 1182194902184755 / 1125899906842624"
      using fl_tie [of "- 52" "(3152519739159347 / 4503599627370496) * (3 / 2)" "4728779608739020"] by simp
    have f4: "fmul (7 / 10) (3 / 2) = 1182194902184755 / 1125899906842624"
      by (simp only: fmul_def f1 f2 f3)
    show ?thesis by (rule f4)
qed

lemma fmul_20_product: "fmul 20 (fmul (7 / 10) (3 / 2)) = 5910974510923775 / 281474976710656"
proof -
    have f1: "fl (7 / 10) = 3152519739159347 / 4503599627370496"
      using fl_near [of "- 53" "7 / 10" "6305039478318694"] by simp
    have f2: "fl (3 / 2) = 3 / 2"
      using fl_near [of "- 52" "3 / 2" "6755399441055744"] by simp
    have f3: "fl ((3152519739159347 / 4503599627370496) * (3 / 2)) = 1182194902184755 / 1125899906842624"
      using fl_tie [of "- 52" "(3152519739159347 / 4503599627370496) * (3 / 2)" "4728779608739020"] by simp
    have f4: "fmul (7 / 10) (3 / 2) = 1182194902184755 / 1125899906842624"
      by (simp only: fmul_def f1 f2 f3)
    have f5: "fl 20 = 20"
      using fl_near [of "- 48" "20" "5629499534213120"] by simp
    have f6: "fl (1182194902184755 / 1125899906842624) = 1182194902184755 / 1125899906842624"
      using fl_near [of "- 52" "1182194902184755 / 1125899906842624" "4728779608739020"] by simp
    have f7: "fl (20 * (1182194902184755 / 1125899906842624)) = 5910974510923775 / 281474976710656"
      using fl_near [of "- 48" "20 * (1182194902184755 / 1125899906842624)" "5910974510923775"] by simp
    have f8: "fmul 20 (1182194902184755 / 1125899906842624) = 5910974510923775 / 281474976710656"
      by (simp only: fmul_def f5 f6 f7)
    have f9: "fmul 20 (fmul (7 / 10) (3 / 2)) = 5910974510923775 / 281474976710656"
      by (simp only: f4 f8)
    show ?thesis by (rule f9)
qed

lemma fl_tenth: "fl (1 / 10) = 3602879701896397 / 36028797018963968"
  using fl_near [of "- 56" "1 / 10" "7205759403792794"] by simp

lemma fl_seven_tenths: "fl (7 / 10) = 3152519739159347 / 4503599627370496"
  using fl_near [of "- 53" "7 / 10" "6305039478318694"] by simp

lemma fl_nine_tenths: "fl (9 / 10) = 8106479329266893 / 9007199254740992"
  using fl_near [of "- 53" "9 / 10" "8106479329266893"] by simp

lemma fl_three_fifths: "fl (3 / 5) = 5404319552844595 / 9007199254740992"
  using fl_near [of "- 53" "3 / 5" "5404319552844595"] by simp

lemma fl_half: "fl (1 / 2) = 1 / 2"
  using fl_near [of "- 53" "1 / 2" "4503599627370496"] by simp

lemma fl_scratch: "fl (4 / 5) = 3602879701896397 / 4503599627370496"
  using fl_near [of "- 53" "4 / 5" "7205759403792794"] by simp

lemma fl_three_halves: "fl (3 / 2) = 3 / 2"
  using fl_near [of "- 52" "3 / 2" "6755399441055744"] by simp

lemma fl_three_tenths: "fl (3 / 10) = 5404319552844595 / 18014398509481984"
  using fl_near [of "- 54" "3 / 10" "5404319552844595"] by simp

lemmas float_evals =
  fmul_5_scratch fmul_10_scratch fmul_1_scratch fmul_10_goblin fmul_25_troll_fire
  flee_chance_goblin fl_tenth fl_seven_tenths fl_nine_tenths fmul_numeral_one fmul_zero_right

text \<open>
  Products and a sum in which the rounding decides the result, as the interpreter computes
  them: \<^verbatim>\<open>int(90 * (1.0 * 0.7))\<close> is 62, \<^verbatim>\<open>int(20 * (1.0 * 0.7 * 1.5))\<close> is 20,
  \<^verbatim>\<open>int(45 * 1.4)\<close> is 62, and \<^verbatim>\<open>0.3 + 6 * 0.05\<close> is above \<^verbatim>\<open>0.6\<close>.
\<close>

lemma float_products_as_computed:
  "py_int (fmul 90 (fmul 1 (7/10))) = 62"
  "py_int (fmul 20 (fmul (fmul 1 (7/10)) (3/2))) = 20"
  "py_int (fmul 45 (7/5)) = 62"
  "fl (3/5) < fadd (3/10) (fmul 6 (1/20))"
proof -
  show "py_int (fmul 90 (fmul 1 (7/10))) = 62"
    unfolding fmul_90_skeleton by (rule py_int_between) simp_all
  show "py_int (fmul 20 (fmul (fmul 1 (7/10)) (3/2))) = 20"
    unfolding fmul_20_both by (rule py_int_between) simp_all
  show "py_int (fmul 45 (7/5)) = 62"
    unfolding fmul_45_cleave by (rule py_int_between) simp_all
  show "fl (3/5) < fadd (3/10) (fmul 6 (1/20))"
    unfolding flee_chance_fast fl_three_fifths by simp
qed

subsection \<open>The sample sessions are what \<^verbatim>\<open>start_combat\<close> builds\<close>

lemma Enemy_init_goblin: "Enemy_init ''goblin'' 1 5 = Inr goblin"
  by (simp add: Enemy_init_def enemy_types_table_def mk_enemy_data_def goblin_def py_int_def
        fmul_numeral_one)

lemma Enemy_init_bandit: "Enemy_init ''bandit'' 1 15 = Inr bandit"
  by (simp add: Enemy_init_def enemy_types_table_def mk_enemy_data_def bandit_def py_int_def
        fmul_numeral_one)

lemma Enemy_init_skeleton: "Enemy_init ''skeleton'' 1 15 = Inr skeleton"
  by (simp add: Enemy_init_def enemy_types_table_def mk_enemy_data_def skeleton_def py_int_def
        fmul_numeral_one)

lemma Enemy_init_troll: "Enemy_init ''troll'' 1 40 = Inr troll"
  by (simp add: Enemy_init_def enemy_types_table_def mk_enemy_data_def troll_def py_int_def
        fmul_numeral_one)

lemma Enemy_init_dragon: "Enemy_init ''dragon'' 1 700 = Inr dragon"
  by (simp add: Enemy_init_def enemy_types_table_def mk_enemy_data_def dragon_def py_int_def
        fmul_numeral_one)

lemma start_combat_goblin: "start_combat ''goblin'' 1 5 hero [] [] = Inr (fight hero ''goblin'' goblin)"
  by (simp add: start_combat_def Enemy_init_goblin fight_def add_to_log_def)

lemma start_combat_bandit: "start_combat ''bandit'' 1 15 hero [] [] = Inr (fight hero ''bandit'' bandit)"
  by (simp add: start_combat_def Enemy_init_bandit fight_def add_to_log_def)

subsection \<open>Acting out of turn\<close>

text \<open>
  Claim C4. A call of \<^verbatim>\<open>process_player_turn\<close> while the state is \<^verbatim>\<open>ENEMY_TURN\<close>,
  \<^verbatim>\<open>VICTORY\<close>, \<^verbatim>\<open>DEFEAT\<close> or \<^verbatim>\<open>FLEE\<close> returns the text "It's not your turn!" and
  the whole session (player, enemy, turn count, state, log, buffs) is as it was, for every
  action, target, item and draws.
\<close>

theorem process_player_turn_out_of_turn:
  assumes "state s \<in> {ENEMY_TURN, VICTORY, DEFEAT, FLEE}"
  shows "process_player_turn action target item r s = Inr ([NotYourTurn], s)"
  using assms by (auto simp: process_player_turn_def)

theorem process_player_turn_out_of_turn_witness:
  "state ((fight hero ''goblin'' goblin)\<lparr>state := VICTORY\<rparr>) \<in> {ENEMY_TURN, VICTORY, DEFEAT, FLEE}
   \<and> process_player_turn ''attack'' None None draws ((fight hero ''goblin'' goblin)\<lparr>state := VICTORY\<rparr>)
       = Inr ([NotYourTurn], (fight hero ''goblin'' goblin)\<lparr>state := VICTORY\<rparr>)"
proof -
  have h: "state ((fight hero ''goblin'' goblin)\<lparr>state := VICTORY\<rparr>)
             \<in> {ENEMY_TURN, VICTORY, DEFEAT, FLEE}"
    by simp
  show ?thesis
    using h process_player_turn_out_of_turn [OF h, of "''attack''" None None draws] by simp
qed

subsection \<open>Resistance and weakness\<close>

text \<open>
  Claim C8. When the damage type is a key of both the resistances and the weaknesses of
  the enemy, and the operands and the two products are finite doubles (nothing overflows),
  \<^verbatim>\<open>take_damage\<close> multiplies the incoming amount by the float product of the resistance
  factor and the weakness factor: both factors apply. It then truncates, for physical
  damage subtracts the defense with floor 1, and takes the result off the health.
\<close>

theorem take_damage_resistance_times_weakness:
  assumes "resistances e (DamageType_value dt) = Some res"
      and "weaknesses e (DamageType_value dt) = Some weak"
      and "finite_double amount" and "finite_double res" and "finite_double weak"
      and "finite_double (fmul res weak)"
      and "finite_double (fmul amount (fmul res weak))"
  shows "take_damage amount dt e =
           (let d = py_int (fmul amount (fmul res weak));
                final = (if dt = PHYSICAL then max 1 (d - defense e) else d)
            in (final, e\<lparr>health := health e - final\<rparr>))"
  using assms(1,2) by (simp add: take_damage_def Let_def fmul_fmul_one)

text \<open>
  The theorem on the troll, whose table has \<^verbatim>\<open>fire\<close> in both maps (0.5 and 0.8): 25 fire
  damage is int(25 * 0.4) = 10. And on the skeleton (physical resistance 0.7, defense 8)
  with a physical weakness 1.5 written into its table: the factor is 0.7 * 1.5 =
  1.0499999999999998 and 20 physical damage is int(20.999999999999996) - 8 = 12.
\<close>

theorem take_damage_resistance_times_weakness_witness:
  "resistances troll (DamageType_value FIRE) = Some (1/2)
   \<and> weaknesses troll (DamageType_value FIRE) = Some (4/5)
   \<and> finite_double 25 \<and> finite_double (1/2) \<and> finite_double (4/5)
   \<and> finite_double (fmul (1/2) (4/5)) \<and> finite_double (fmul 25 (fmul (1/2) (4/5)))
   \<and> take_damage 25 FIRE troll = (10, troll\<lparr>health := 110\<rparr>)
   \<and> take_damage 20 PHYSICAL (skeleton\<lparr>weaknesses := (weaknesses skeleton)(''physical'' \<mapsto> 3/2)\<rparr>)
       = (12, skeleton\<lparr>weaknesses := (weaknesses skeleton)(''physical'' \<mapsto> 3/2), health := 38\<rparr>)"
proof -
  let ?sk = "skeleton\<lparr>weaknesses := (weaknesses skeleton)(''physical'' \<mapsto> 3/2)\<rparr>"
  have r: "resistances troll (DamageType_value FIRE) = Some (1/2)"
    by (simp add: troll_def)
  have w: "weaknesses troll (DamageType_value FIRE) = Some (4/5)"
    by (simp add: troll_def)
  have f: "finite_double 25" "finite_double (1/2)" "finite_double (4/5)"
    "finite_double (fmul (1/2) (4/5))" "finite_double (fmul 25 (fmul (1/2) (4/5)))"
  proof -
    show "finite_double 25" by (simp add: finite_double_def fl_numeral)
    show "finite_double (1/2)" by (simp add: finite_double_def fl_half)
    show "finite_double (4/5)" by (simp add: finite_double_def fl_scratch)
    show "finite_double (fmul (1/2) (4/5))"
      unfolding finite_double_def fl_fmul by (simp add: fmul_troll_fire)
    show "finite_double (fmul 25 (fmul (1/2) (4/5)))"
      unfolding finite_double_def fl_fmul by (simp add: fmul_25_troll)
  qed
  have h: "health troll = 120"
    by (simp add: troll_def)
  have t: "take_damage 25 FIRE troll = (10, troll\<lparr>health := 110\<rparr>)"
    using take_damage_resistance_times_weakness [OF r w f]
    by (simp add: Let_def fmul_25_troll h py_int_def)
  have r': "resistances ?sk (DamageType_value PHYSICAL) = Some (7/10)"
    by (simp add: skeleton_def)
  have w': "weaknesses ?sk (DamageType_value PHYSICAL) = Some (3/2)"
    by simp
  have f': "finite_double 20" "finite_double (7/10)" "finite_double (3/2)"
    "finite_double (fmul (7/10) (3/2))" "finite_double (fmul 20 (fmul (7/10) (3/2)))"
  proof -
    show "finite_double 20" by (simp add: finite_double_def fl_numeral)
    show "finite_double (7/10)" by (simp add: finite_double_def fl_seven_tenths)
    show "finite_double (3/2)" by (simp add: finite_double_def fl_three_halves)
    show "finite_double (fmul (7/10) (3/2))"
      unfolding finite_double_def fl_fmul by (simp add: fmul_both)
    show "finite_double (fmul 20 (fmul (7/10) (3/2)))"
      unfolding finite_double_def fl_fmul by (simp add: fmul_20_product)
  qed
  have p: "py_int (5910974510923775 / 281474976710656) = 20"
    by (rule py_int_between) simp_all
  have h': "health ?sk = 50" "defense ?sk = 8"
    by (simp_all add: skeleton_def)
  have t': "take_damage 20 PHYSICAL ?sk = (12, ?sk\<lparr>health := 38\<rparr>)"
    using take_damage_resistance_times_weakness [OF r' w' f']
    by (simp add: Let_def fmul_20_product p h')
  from r w f t t' show ?thesis by simp
qed

subsection \<open>Runs of the turn engine on the sample sessions\<close>

text \<open>
  Claim C1. The hero defends against the goblin and the goblin's riposte misses (roll 95
  against accuracy 90): the enemy is alive, the attempt to flee was none, the player's
  health is above 0, and the call returns with the state \<^verbatim>\<open>ENEMY_TURN\<close>. The final
  test of \<^verbatim>\<open>process_player_turn\<close> compares the state with \<^verbatim>\<open>ACTIVE\<close>, which it never
  is at that point. The next call of \<^verbatim>\<open>process_turn\<close> answers "Wait for your turn!" and
  the next call of \<^verbatim>\<open>process_player_turn\<close> "It's not your turn!".
\<close>

theorem defend_leaves_enemy_turn:
  "(case process_player_turn ''defend'' None None draws (fight hero ''goblin'' goblin) of
      Inl err \<Rightarrow> False
    | Inr (m, s') \<Rightarrow>
        state s' = ENEMY_TURN \<and> is_alive (enemy s') \<and> 0 < p_health (player s')
        \<and> process_turn ''attack'' draws s' = Inr ([WaitForYourTurn], s')
        \<and> process_player_turn ''attack'' None None draws s' = Inr ([NotYourTurn], s'))"
  by (simp add: engine_defs sample_defs float_evals)

text \<open>
  Claim C2. The hero flees from the goblin with the draw 0, below the flee chance 0.2:
  \<^verbatim>\<open>player_flee\<close> reports success and sets the state \<^verbatim>\<open>FLEE\<close>, and then
  \<^verbatim>\<open>process_player_turn\<close> goes on as after any other action: it sets the state
  \<^verbatim>\<open>ENEMY_TURN\<close>, counts the turn and lets the goblin act. With a goblin roll of 95 the
  call returns in state \<^verbatim>\<open>ENEMY_TURN\<close> with the goblin's pattern index advanced; with a
  goblin roll of 50 the goblin's hit raises.
\<close>

theorem successful_flee_overwritten:
  "player_flee draws (fight hero ''goblin'' goblin)
     = (FleeSuccess, add_to_log FleeSuccess ((fight hero ''goblin'' goblin)\<lparr>state := FLEE\<rparr>))
   \<and> (case process_player_turn ''flee'' None None draws (fight hero ''goblin'' goblin) of
        Inl err \<Rightarrow> False
      | Inr (m, s') \<Rightarrow>
          m = [FleeSuccess, TriesButMisses ''Goblin'' ''Scratch'']
          \<and> state s' = ENEMY_TURN \<and> turn_count s' = 1 \<and> pattern_index (enemy s') = 1)
   \<and> process_player_turn ''flee'' None None (draws\<lparr>enemy_roll := 50\<rparr>)
        (fight hero ''goblin'' goblin) = Inl AttributeError"
  by (simp add: engine_defs sample_defs float_evals)

text \<open>
  Claim C3. Combat operations that raise: the goblin's riposte connects (roll 50) after the
  hero defends or attacks, and \<^verbatim>\<open>use_ability\<close> calls \<^verbatim>\<open>take_damage\<close> on the player
  dict; an enemy that carries a status effect reaches \<^verbatim>\<open>process_status_effects\<close>, which
  reads an attribute of the global \<^verbatim>\<open>None\<close>; the item \<^verbatim>\<open>bomb\<close> passes a string as damage
  type to \<^verbatim>\<open>take_damage\<close>.
\<close>

theorem combat_operations_raise:
  "process_player_turn ''defend'' None None (draws\<lparr>enemy_roll := 50\<rparr>)
     (fight hero ''goblin'' goblin) = Inl AttributeError
   \<and> process_player_turn ''attack'' None None (draws\<lparr>enemy_roll := 50\<rparr>)
       (fight hero ''goblin'' goblin) = Inl AttributeError
   \<and> process_status_effects (apply_status ''bleed'' 2 goblin) = Inl AttributeError
   \<and> player_use_item (Some ''bomb'')
       (fight (hero\<lparr>p_inventory := Some [''bomb'']\<rparr>) ''goblin'' goblin) = Inl AttributeError"
  by (simp add: engine_defs sample_defs float_evals)

text \<open>
  Claim C6. The hero (strength 10) uses \<^verbatim>\<open>power_attack\<close> on the bandit with the roll 80.
  The table of \<^verbatim>\<open>get_player_ability\<close> gives the ability the multiplier 1.5 and the
  accuracy 75, under which the roll 80 misses. \<^verbatim>\<open>use_ability\<close> looks the name up in
  \<^verbatim>\<open>self.abilities\<close>, finds nothing and resolves \<^verbatim>\<open>scratch\<close>: the roll 80 hits
  (accuracy 90) for int(10 * 0.8) - 5 = 3 damage. Only the mana cost 5 is the named
  ability's own.
\<close>

theorem power_attack_resolves_as_scratch:
  "map_option pa_damage_mult (get_player_ability ''power_attack'') = Some (3/2)
   \<and> map_option pa_accuracy (get_player_ability ''power_attack'') = Some (Some 75)
   \<and> ability_roll draws = 80 \<and> p_strength hero = 10
   \<and> player_ability (Some ''power_attack'') draws (fight hero ''bandit'' bandit)
      = Inr (Joined [UsesOnFor ''You'' ''Scratch'' ''Bandit'' 3],
             add_to_log (Joined [UsesOnFor ''You'' ''Scratch'' ''Bandit'' 3])
               ((fight hero ''bandit'' bandit)
                  \<lparr>player := hero\<lparr>p_mana := Some 45\<rparr>, enemy := bandit\<lparr>health := 37\<rparr>\<rparr>))"
  by (simp add: engine_defs sample_defs float_evals)

text \<open>
  Claim C7. The goblin's hit (roll 50) on the hero, with and without the buff that
  \<^verbatim>\<open>player_defend\<close> appends: the two calls of \<^verbatim>\<open>process_player_turn\<close> (defend, and a
  failed flee as the turn that does not defend) and the two enemy turns on a session with
  and without the buff all end in the same \<^verbatim>\<open>AttributeError\<close>; no damage is taken in
  either.
\<close>

theorem defend_changes_nothing:
  "process_player_turn ''defend'' None None (draws\<lparr>enemy_roll := 50\<rparr>)
     (fight hero ''goblin'' goblin) = Inl AttributeError
   \<and> process_player_turn ''flee'' None None (draws\<lparr>enemy_roll := 50, flee_draw := 9/10\<rparr>)
       (fight hero ''goblin'' goblin) = Inl AttributeError
   \<and> process_enemy_turn (draws\<lparr>enemy_roll := 50\<rparr>)
       ((fight hero ''goblin'' goblin)\<lparr>player_buffs := [defending]\<rparr>) = Inl AttributeError
   \<and> process_enemy_turn (draws\<lparr>enemy_roll := 50\<rparr>) (fight hero ''goblin'' goblin)
       = Inl AttributeError"
  by (simp add: engine_defs sample_defs float_evals)

subsection \<open>Physical hits on the enemy\<close>

lemma take_damage_physical_floor:
  "1 \<le> fst (take_damage amount PHYSICAL e)"
  by (simp add: take_damage_def Let_def)

lemma take_damage_health:
  "health (snd (take_damage amount dt e)) = health e - fst (take_damage amount dt e)"
  by (simp add: take_damage_def Let_def)

lemma apply_effect_enemy_health:
  "health (enemy (snd (apply_effect eff t d p s))) = health (enemy s)"
  by (simp add: apply_effect_def apply_status_def split: option.splits combatant.splits)

text \<open>
  The guard \<^verbatim>\<open>if damage > 0\<close> of \<^verbatim>\<open>use_ability\<close> tests the truncated float product.
  For the multipliers of the ability catalogue it holds whenever the truncated exact
  product is positive.
\<close>

lemma catalogue_damage_mult:
  "(case damage_mult (abilities_get n) of Some m \<Rightarrow> m | None \<Rightarrow> 1)
     \<in> {0, 1/2, 4/5, 9/10, 1, 11/10, 6/5, 13/10, 7/5, 3/2, 9/5, 2}"
  by (simp add: abilities_get_def abilities_def abilities_table_def mk_ability_def)

lemma float_guard_large:
  assumes "1 \<le> m" "1 \<le> of_int k * m"
  shows "1 \<le> fmul (of_int k) m"
proof -
  have "0 < k"
  proof (rule ccontr)
    assume "\<not> 0 < k"
    then have "(of_int k :: rat) \<le> 0" by simp
    with assms(1) have "of_int k * m \<le> 0" by (simp add: mult_le_0_iff)
    with assms(2) show False by simp
  qed
  then have "(of_int 1 :: rat) \<le> of_int k" by simp
  then have 1: "1 \<le> fl (of_int k)" using fl_ge_int [of 1 "of_int k"] by simp
  have 2: "1 \<le> fl m" using fl_ge_int [of 1 m] assms(1) by simp
  from 1 2 have "1 * 1 \<le> fl (of_int k) * fl m" by (intro mult_mono) auto
  then have "of_int 1 \<le> fl (of_int k) * fl m" by simp
  then show ?thesis unfolding fmul_def using fl_ge_int [of 1 "fl (of_int k) * fl m"] by simp
qed

lemma float_guard_small:
  assumes "1/2 \<le> fl m" "0 < m" "m < 1" "1 \<le> of_int k * m"
  shows "1 \<le> fmul (of_int k) m"
proof -
  have "1 < k"
  proof (rule ccontr)
    assume "\<not> 1 < k"
    then have "(of_int k :: rat) \<le> 1" by simp
    with assms(2) have "of_int k * m \<le> 1 * m" by (intro mult_right_mono) auto
    with assms(3,4) show False by simp
  qed
  then have "(of_int 2 :: rat) \<le> of_int k" by simp
  then have 1: "2 \<le> fl (of_int k)" using fl_ge_int [of 2 "of_int k"] by simp
  from 1 assms(1) have "2 * (1/2) \<le> fl (of_int k) * fl m" by (intro mult_mono) auto
  then have "of_int 1 \<le> fl (of_int k) * fl m" by simp
  then show ?thesis unfolding fmul_def using fl_ge_int [of 1 "fl (of_int k) * fl m"] by simp
qed

lemma float_guard:
  assumes "m \<in> {0, 1/2, 4/5, 9/10, 1, 11/10, 6/5, 13/10, 7/5, 3/2, 9/5, 2}"
      and "0 < py_int (of_int k * m)"
  shows "0 < py_int (fmul (of_int k) m)"
proof -
  from assms(2) have e: "1 \<le> of_int k * m" by (simp only: py_int_pos_iff)
  then have nz: "m \<noteq> 0" by auto
  have "1 \<le> fmul (of_int k) m"
  proof (cases "m < 1")
    case True
    with assms(1) nz consider "m = 1/2" | "m = 4/5" | "m = 9/10" by auto
    then have "1/2 \<le> fl m \<and> 0 < m"
    proof cases
      case 1
      show ?thesis unfolding 1 fl_half by simp
    next
      case 2
      show ?thesis unfolding 2 fl_scratch by simp
    next
      case 3
      show ?thesis unfolding 3 fl_nine_tenths by simp
    qed
    then have "1/2 \<le> fl m" "0 < m" by simp_all
    from float_guard_small [OF this True e] show ?thesis .
  next
    case False
    then have "1 \<le> m" by simp
    from float_guard_large [OF this e] show ?thesis .
  qed
  then show ?thesis by (simp only: py_int_pos_iff)
qed

text \<open>
  Claim C9, as stated: every connecting physical attack with a non-zero damage multiplier
  takes at least 1 off the target's health. It fails for a player of strength 1 who uses
  \<^verbatim>\<open>scratch\<close> (physical, multiplier 0.8, accuracy 90) with the roll 50: the raw damage
  int(1 * 0.8) is 0, the guard \<^verbatim>\<open>if damage > 0\<close> skips \<^verbatim>\<open>take_damage\<close>, and the session
  is returned as it was, the goblin still at 25 health.
\<close>

theorem connecting_hit_without_damage:
  "damage_mult (abilities_get ''scratch'') = Some (4/5)
   \<and> damage_type (abilities_get ''scratch'') = None
   \<and> accuracy (abilities_get ''scratch'') = Some 90
   \<and> health (enemy (fight (hero\<lparr>p_strength := 1\<rparr>) ''goblin'' goblin)) = 25
   \<and> use_ability ThePlayer ''scratch'' 50 (fight (hero\<lparr>p_strength := 1\<rparr>) ''goblin'' goblin)
      = Inr (Joined [Uses ''You'' ''Scratch''], fight (hero\<lparr>p_strength := 1\<rparr>) ''goblin'' goblin)"
  by (simp add: engine_defs sample_defs float_evals)

text \<open>
  Claim C9, amended. \<^verbatim>\<open>Enemy.take_damage\<close> with physical damage applies at least 1,
  whatever the amount and the defense, and takes exactly what it returns off the health.
  Hence an ability of the player that connects (roll not above its accuracy), is physical
  and has a positive truncated raw damage int(strength * multiplier) lowers the enemy's
  health by at least 1, for every defense of the enemy.
\<close>

theorem connecting_physical_hit_at_least_one:
  "1 \<le> fst (take_damage amount PHYSICAL e)
   \<and> health (snd (take_damage amount PHYSICAL e)) = health e - fst (take_damage amount PHYSICAL e)
   \<and> (roll \<le> (case accuracy (abilities_get n) of Some a \<Rightarrow> a | None \<Rightarrow> 85)
        \<and> DamageType_by_name
             (upper (case damage_type (abilities_get n) of Some t \<Rightarrow> t | None \<Rightarrow> ''PHYSICAL''))
            = Some PHYSICAL
        \<and> 0 < py_int (of_int (p_strength (player s))
                        * (case damage_mult (abilities_get n) of Some m \<Rightarrow> m | None \<Rightarrow> 1))
      \<longrightarrow> (\<exists>m s'. use_ability ThePlayer n roll s = Inr (m, s')
                   \<and> health (enemy s') \<le> health (enemy s) - 1))"
proof (intro conjI impI)
  show "1 \<le> fst (take_damage amount PHYSICAL e)"
    by (rule take_damage_physical_floor)
  show "health (snd (take_damage amount PHYSICAL e))
          = health e - fst (take_damage amount PHYSICAL e)"
    by (rule take_damage_health)
next
  let ?mult = "case damage_mult (abilities_get n) of Some m \<Rightarrow> m | None \<Rightarrow> 1"
  let ?dmg = "py_int (fmul (of_int (p_strength (player s))) ?mult)"
  let ?td = "take_damage (of_int ?dmg) PHYSICAL (enemy s)"
  assume a: "roll \<le> (case accuracy (abilities_get n) of Some a \<Rightarrow> a | None \<Rightarrow> 85)
        \<and> DamageType_by_name
             (upper (case damage_type (abilities_get n) of Some t \<Rightarrow> t | None \<Rightarrow> ''PHYSICAL''))
            = Some PHYSICAL
        \<and> 0 < py_int (of_int (p_strength (player s)) * ?mult)"
  then have g: "0 < ?dmg"
    by (intro float_guard catalogue_damage_mult) simp
  have h: "health (snd ?td) \<le> health (enemy s) - 1"
    using take_damage_physical_floor [of "of_int ?dmg" "enemy s"]
    by (simp add: take_damage_health)
  show "\<exists>m s'. use_ability ThePlayer n roll s = Inr (m, s')
                \<and> health (enemy s') \<le> health (enemy s) - 1"
    using a g h
    by (simp add: use_ability_def Let_def case_prod_beta apply_effect_enemy_health
             split: option.splits)
qed

theorem connecting_physical_hit_at_least_one_witness:
  "(50::int) \<le> (case accuracy (abilities_get ''scratch'') of Some a \<Rightarrow> a | None \<Rightarrow> 85)
   \<and> DamageType_by_name
        (upper (case damage_type (abilities_get ''scratch'') of Some t \<Rightarrow> t | None \<Rightarrow> ''PHYSICAL''))
       = Some PHYSICAL
   \<and> 0 < py_int (of_int (p_strength (player (fight hero ''bandit'' bandit)))
                   * (case damage_mult (abilities_get ''scratch'') of Some m \<Rightarrow> m | None \<Rightarrow> 1))
   \<and> (\<exists>m s'. use_ability ThePlayer ''scratch'' 50 (fight hero ''bandit'' bandit) = Inr (m, s')
              \<and> health (enemy s') \<le> health (enemy (fight hero ''bandit'' bandit)) - 1)"
proof -
  have h: "(50::int) \<le> (case accuracy (abilities_get ''scratch'') of Some a \<Rightarrow> a | None \<Rightarrow> 85)
   \<and> DamageType_by_name
        (upper (case damage_type (abilities_get ''scratch'') of Some t \<Rightarrow> t | None \<Rightarrow> ''PHYSICAL''))
       = Some PHYSICAL
   \<and> 0 < py_int (of_int (p_strength (player (fight hero ''bandit'' bandit)))
                   * (case damage_mult (abilities_get ''scratch'') of Some m \<Rightarrow> m | None \<Rightarrow> 1))"
    by (simp add: engine_defs sample_defs float_evals)
  show ?thesis
    using h connecting_physical_hit_at_least_one
            [of 0 bandit 50 "''scratch''" "fight hero ''bandit'' bandit"]
    by blast
qed


text \<open>
  The other side of the guard: a player's ability whose truncated float product is not
  positive leaves the enemy's health as it was, whether it connects or not.
\<close>

lemma use_ability_without_damage:
  assumes "use_ability ThePlayer n roll s = Inr (m, s')"
      and "py_int (fmul (of_int (p_strength (player s)))
                    (case damage_mult (abilities_get n) of Some m \<Rightarrow> m | None \<Rightarrow> 1)) \<le> 0"
  shows "health (enemy s') = health (enemy s)"
proof (cases "DamageType_by_name
         (upper (case damage_type (abilities_get n) of Some t \<Rightarrow> t | None \<Rightarrow> ''PHYSICAL''))")
  case None
  with assms show ?thesis
    by (auto simp: use_ability_def Let_def split: if_splits)
next
  case (Some dt)
  with assms show ?thesis
    by (cases "effect (abilities_get n)"; cases "self_effect (abilities_get n)";
        cases "lifesteal (abilities_get n)")
       (auto simp: use_ability_def Let_def case_prod_beta apply_effect_enemy_health
          split: if_splits)
qed

subsection \<open>Victory\<close>

lemma loot_loop_total:
  "p_inventory p \<noteq> None \<Longrightarrow>
   \<exists>loot items. loot_loop draw i tbl acc p = Inr (loot, p\<lparr>p_inventory := Some items\<rparr>)"
proof (induction tbl arbitrary: i acc p)
  case Nil
  then obtain items where "p_inventory p = Some items" by auto
  then have "loot_loop draw i [] acc p = Inr (acc, p\<lparr>p_inventory := Some items\<rparr>)"
    by simp
  then show ?case by blast
next
  case (Cons item rest)
  from Cons.prems obtain items where it: "p_inventory p = Some items" by auto
  show ?case
  proof (cases "fl (draw i) < fl (3/10)")
    case True
    have "p_inventory (p\<lparr>p_inventory := Some (items @ [item])\<rparr>) \<noteq> None" by simp
    from Cons.IH [OF this, of "i + 1" "acc @ [item]"] True it
    show ?thesis by auto
  next
    case False
    from Cons.IH [OF Cons.prems, of "i + 1" acc] False
    show ?thesis by auto
  qed
qed

lemma get_loot_total:
  assumes "p_inventory (player s) \<noteq> None"
  shows "\<exists>loot items. get_loot r s = Inr (loot, s\<lparr>player := (player s)\<lparr>p_inventory := Some items\<rparr>\<rparr>)"
proof -
  from loot_loop_total [OF assms, of "loot_draw r" 0 "loot_table (enemy s)" "[]"]
  obtain loot items where
    "loot_loop (loot_draw r) 0 (loot_table (enemy s)) [] (player s)
       = Inr (loot, (player s)\<lparr>p_inventory := Some items\<rparr>)"
    by blast
  then have "get_loot r s = Inr (loot, s\<lparr>player := (player s)\<lparr>p_inventory := Some items\<rparr>\<rparr>)"
    by (simp add: get_loot_def)
  then show ?thesis by blast
qed

lemma level_up_inventory: "p_inventory (level_up p) = p_inventory p"
  by (simp add: level_up_def Let_def)

lemma level_up_xp: "p_xp (level_up p) = p_xp p - p_xp_to_next p"
  by (simp add: level_up_def Let_def)

lemma level_up_gold: "p_gold (level_up p) = p_gold p"
  by (simp add: level_up_def Let_def)

lemma process_victory_rewards:
  assumes "p_inventory (player s) \<noteq> None"
  shows "\<exists>vm s'. process_victory r s = Inr (vm, s')
           \<and> state s' = state s \<and> enemy s' = enemy s \<and> turn_count s' = turn_count s
           \<and> player_debuffs s' = player_debuffs s
           \<and> p_gold (player s') = p_gold (player s) + gold_reward (enemy s)
           \<and> p_xp (player s') =
               (if p_xp_to_next (player s) \<le> p_xp (player s) + xp_reward (enemy s)
                then p_xp (player s) + xp_reward (enemy s) - p_xp_to_next (player s)
                else p_xp (player s) + xp_reward (enemy s))"
proof -
  let ?s2 = "s\<lparr>player := (player s)\<lparr>p_xp := p_xp (player s) + xp_reward (enemy s),
                                      p_gold := p_gold (player s) + gold_reward (enemy s)\<rparr>\<rparr>"
  let ?s3 = "if p_xp_to_next (player ?s2) \<le> p_xp (player ?s2)
             then ?s2\<lparr>player := level_up (player ?s2)\<rparr> else ?s2"
  have inv: "p_inventory (player ?s3) \<noteq> None"
    using assms by (simp add: level_up_inventory)
  from get_loot_total [OF inv, of r] obtain loot items where
    gl: "get_loot r ?s3 = Inr (loot, ?s3\<lparr>player := (player ?s3)\<lparr>p_inventory := Some items\<rparr>\<rparr>)"
    by blast
  show ?thesis
  proof (cases "p_xp_to_next (player s) \<le> p_xp (player s) + xp_reward (enemy s)")
    case True
    with gl show ?thesis
      by (simp add: process_victory_def Let_def add_to_log_def level_up_xp level_up_gold)
  next
    case False
    with gl show ?thesis
      by (simp add: process_victory_def Let_def add_to_log_def)
  qed
qed

text \<open>
  Claim C5. In state \<^verbatim>\<open>PLAYER_TURN\<close>, when the action is recognised, returns (text \<open>m\<close>,
  session \<open>s1\<close>) and leaves the enemy at health 0 or below, and the player dict has an
  inventory for the loot: the call returns in state \<^verbatim>\<open>VICTORY\<close>; the enemy record, the
  turn count and the player's debuffs are those of \<open>s1\<close>, so no enemy action ran; the gold
  is the gold of \<open>s1\<close> plus the enemy's \<open>gold_reward\<close>; the experience is that of \<open>s1\<close> plus
  the enemy's \<open>xp_reward\<close>, less the level threshold when the sum reaches it (the level-up
  carries the excess over); and every later call of \<^verbatim>\<open>process_player_turn\<close> is rejected
  with the session unchanged, so nothing is granted twice.
\<close>

theorem victory_on_the_killing_call:
  assumes "state s = PLAYER_TURN"
      and "player_action action target item r s = Some (Inr (m, s1))"
      and "health (enemy s1) \<le> 0"
      and "p_inventory (player s1) \<noteq> None"
  shows "\<exists>vm s'. process_player_turn action target item r s = Inr ([m, vm], s')
           \<and> state s' = VICTORY
           \<and> enemy s' = enemy s1 \<and> turn_count s' = turn_count s1
           \<and> player_debuffs s' = player_debuffs s1
           \<and> p_gold (player s') = p_gold (player s1) + gold_reward (enemy s1)
           \<and> p_xp (player s') =
               (if p_xp_to_next (player s1) \<le> p_xp (player s1) + xp_reward (enemy s1)
                then p_xp (player s1) + xp_reward (enemy s1) - p_xp_to_next (player s1)
                else p_xp (player s1) + xp_reward (enemy s1))
           \<and> (\<forall>a t i r'. process_player_turn a t i r' s' = Inr ([NotYourTurn], s'))"
proof -
  have inv: "p_inventory (player (s1\<lparr>state := VICTORY\<rparr>)) \<noteq> None"
    using assms(4) by simp
  from process_victory_rewards [OF inv, of r] obtain vm s' where
    pv: "process_victory r (s1\<lparr>state := VICTORY\<rparr>) = Inr (vm, s')"
    and st: "state s' = VICTORY"
    and rest: "enemy s' = enemy s1" "turn_count s' = turn_count s1"
      "player_debuffs s' = player_debuffs s1"
      "p_gold (player s') = p_gold (player s1) + gold_reward (enemy s1)"
      "p_xp (player s') =
         (if p_xp_to_next (player s1) \<le> p_xp (player s1) + xp_reward (enemy s1)
          then p_xp (player s1) + xp_reward (enemy s1) - p_xp_to_next (player s1)
          else p_xp (player s1) + xp_reward (enemy s1))"
    by auto
  have call: "process_player_turn action target item r s = Inr ([m, vm], s')"
    using assms(1-3) pv by (simp add: process_player_turn_def is_alive_def)
  have later: "\<forall>a t i r'. process_player_turn a t i r' s' = Inr ([NotYourTurn], s')"
    using st by (simp add: process_player_turn_def)
  from call st rest later show ?thesis by blast
qed

text \<open>
  The theorem at a hero of strength 50 whose first attack (damage roll 50, 45 after the
  bandit's defense 5) kills the bandit (health 40, 30 experience, 15 gold).
\<close>

theorem victory_on_the_killing_call_witness:
  "state (fight (hero\<lparr>p_strength := 50\<rparr>) ''bandit'' bandit) = PLAYER_TURN
   \<and> player_action ''attack'' None None (draws\<lparr>damage_roll := 50\<rparr>)
        (fight (hero\<lparr>p_strength := 50\<rparr>) ''bandit'' bandit)
       = Some (Inr (AttackFor 45,
                    add_to_log (AttackFor 45)
                      ((fight (hero\<lparr>p_strength := 50\<rparr>) ''bandit'' bandit)
                         \<lparr>enemy := bandit\<lparr>health := - 5\<rparr>\<rparr>)))
   \<and> (\<exists>vm s'. process_player_turn ''attack'' None None (draws\<lparr>damage_roll := 50\<rparr>)
                 (fight (hero\<lparr>p_strength := 50\<rparr>) ''bandit'' bandit) = Inr ([AttackFor 45, vm], s')
              \<and> state s' = VICTORY \<and> enemy s' = bandit\<lparr>health := - 5\<rparr> \<and> turn_count s' = 0
              \<and> p_gold (player s') = 65 \<and> p_xp (player s') = 30
              \<and> (\<forall>a t i r'. process_player_turn a t i r' s' = Inr ([NotYourTurn], s')))"
proof -
  let ?s = "fight (hero\<lparr>p_strength := 50\<rparr>) ''bandit'' bandit"
  let ?r = "draws\<lparr>damage_roll := 50\<rparr>"
  let ?s1 = "add_to_log (AttackFor 45) (?s\<lparr>enemy := bandit\<lparr>health := - 5\<rparr>\<rparr>)"
  have h1: "state ?s = PLAYER_TURN"
    by (simp add: fight_def)
  have h2: "player_action ''attack'' None None ?r ?s = Some (Inr (AttackFor 45, ?s1))"
    by (simp add: engine_defs sample_defs float_evals)
  have h3: "health (enemy ?s1) \<le> 0"
    by (simp add: add_to_log_def Let_def)
  have h4: "p_inventory (player ?s1) \<noteq> None"
    by (simp add: add_to_log_def Let_def sample_defs)
  have v: "enemy ?s1 = bandit\<lparr>health := - 5\<rparr>" "turn_count ?s1 = 0"
    "player_debuffs ?s1 = []"
    "p_gold (player ?s1) = 50" "p_xp (player ?s1) = 0" "p_xp_to_next (player ?s1) = 100"
    by (simp_all add: add_to_log_def Let_def hero_def fight_def)
  have w: "gold_reward (bandit\<lparr>health := - 5\<rparr>) = 15" "xp_reward (bandit\<lparr>health := - 5\<rparr>) = 30"
    by (simp_all add: bandit_def)
  from victory_on_the_killing_call [OF h1 h2 h3 h4]
  have "\<exists>vm s'. process_player_turn ''attack'' None None ?r ?s = Inr ([AttackFor 45, vm], s')
              \<and> state s' = VICTORY \<and> enemy s' = bandit\<lparr>health := - 5\<rparr> \<and> turn_count s' = 0
              \<and> p_gold (player s') = 65 \<and> p_xp (player s') = 30
              \<and> (\<forall>a t i r'. process_player_turn a t i r' s' = Inr ([NotYourTurn], s'))"
    unfolding v w by (simp; blast)
  with h1 h2 show ?thesis by blast
qed

subsection \<open>The player's debuffs\<close>

lemma prepend_fields [simp]:
  "player (prepend_debuffs ds s) = player s"
  "enemy (prepend_debuffs ds s) = enemy s"
  "state (prepend_debuffs ds s) = state s"
  "turn_count (prepend_debuffs ds s) = turn_count s"
  "combat_log (prepend_debuffs ds s) = combat_log s"
  "player_buffs (prepend_debuffs ds s) = player_buffs s"
  "player_debuffs (prepend_debuffs ds s) = ds @ player_debuffs s"
  by (simp_all add: prepend_debuffs_def)

lemma prepend_updates [simp]:
  "(prepend_debuffs ds s)\<lparr>player := p\<rparr> = prepend_debuffs ds (s\<lparr>player := p\<rparr>)"
  "(prepend_debuffs ds s)\<lparr>enemy := e\<rparr> = prepend_debuffs ds (s\<lparr>enemy := e\<rparr>)"
  "(prepend_debuffs ds s)\<lparr>state := st\<rparr> = prepend_debuffs ds (s\<lparr>state := st\<rparr>)"
  "(prepend_debuffs ds s)\<lparr>turn_count := k\<rparr> = prepend_debuffs ds (s\<lparr>turn_count := k\<rparr>)"
  "(prepend_debuffs ds s)\<lparr>combat_log := l\<rparr> = prepend_debuffs ds (s\<lparr>combat_log := l\<rparr>)"
  "(prepend_debuffs ds s)\<lparr>player_buffs := bs\<rparr> = prepend_debuffs ds (s\<lparr>player_buffs := bs\<rparr>)"
  "(prepend_debuffs ds s)\<lparr>player_debuffs := ds @ y\<rparr> = prepend_debuffs ds (s\<lparr>player_debuffs := y\<rparr>)"
  by (simp_all add: prepend_debuffs_def)

lemma add_to_log_prepend [simp]:
  "add_to_log m (prepend_debuffs ds s) = prepend_debuffs ds (add_to_log m s)"
  by (simp add: add_to_log_def Let_def)

lemma apply_effect_prepend:
  "apply_effect eff t d p (prepend_debuffs ds s)
     = map_prod id (prepend_debuffs ds) (apply_effect eff t d p s)"
  by (simp add: apply_effect_def split: option.splits combatant.splits)

lemma use_ability_prepend:
  "use_ability u n roll (prepend_debuffs ds s)
     = map_sum id (map_prod id (prepend_debuffs ds)) (use_ability u n roll s)"
proof (cases "DamageType_by_name
         (upper (case damage_type (abilities_get n) of Some t \<Rightarrow> t | None \<Rightarrow> ''PHYSICAL''))")
  case None
  then show ?thesis by (cases u) (simp_all add: use_ability_def Let_def)
next
  case (Some dt)
  show ?thesis
  proof (cases u)
    case ThePlayer
    with Some show ?thesis
      by (cases "effect (abilities_get n)"; cases "self_effect (abilities_get n)";
          cases "lifesteal (abilities_get n)")
         (simp_all add: use_ability_def Let_def case_prod_beta apply_effect_prepend)
  next
    case TheEnemy
    with Some show ?thesis
      by (cases "effect (abilities_get n)"; cases "self_effect (abilities_get n)";
          cases "lifesteal (abilities_get n)")
         (simp_all add: use_ability_def Let_def case_prod_beta apply_effect_prepend)
  qed
qed

lemma player_attack_prepend:
  "player_attack r (prepend_debuffs ds s) = map_prod id (prepend_debuffs ds) (player_attack r s)"
  by (simp add: player_attack_def Let_def case_prod_beta)

lemma player_defend_prepend:
  "player_defend (prepend_debuffs ds s) = map_prod id (prepend_debuffs ds) (player_defend s)"
  by (simp add: player_defend_def)

lemma player_flee_prepend:
  "player_flee r (prepend_debuffs ds s) = map_prod id (prepend_debuffs ds) (player_flee r s)"
  by (simp add: player_flee_def flee_chance_def)

lemma player_ability_prepend:
  "player_ability t r (prepend_debuffs ds s)
     = map_sum id (map_prod id (prepend_debuffs ds)) (player_ability t r s)"
  by (cases "use_ability ThePlayer (the t) (ability_roll r) s")
     (auto simp: player_ability_def Let_def use_ability_prepend split: option.splits)

lemma item_loop_prepend:
  "item_loop effs res (prepend_debuffs ds s)
     = map_sum id (map_prod id (prepend_debuffs ds)) (item_loop effs res s)"
  by (induction effs res s rule: item_loop.induct) (simp_all add: Let_def)

lemma player_use_item_prepend:
  "player_use_item i (prepend_debuffs ds s)
     = map_sum id (map_prod id (prepend_debuffs ds)) (player_use_item i s)"
  by (cases "item_loop (get_item_effects (the i)) [] s")
     (auto simp: player_use_item_def item_loop_prepend split: option.splits)

lemma process_enemy_turn_prepend:
  "process_enemy_turn r (prepend_debuffs ds s)
     = map_sum id (map_prod id (prepend_debuffs ds)) (process_enemy_turn r s)"
proof (cases "process_status_effects (enemy s)")
  case (Inl err)
  then show ?thesis by (simp add: process_enemy_turn_def)
next
  case (Inr e1)
  show ?thesis
  proof (cases "get_next_ability e1")
    case (Inl err)
    with Inr show ?thesis by (simp add: process_enemy_turn_def)
  next
    case (Inr nx)
    obtain ab e2 where nx: "nx = (ab, e2)" by (cases nx)
    show ?thesis
      using \<open>process_status_effects (enemy s) = Inr e1\<close> Inr nx
      by (cases "use_ability TheEnemy ab (enemy_roll r) (s\<lparr>enemy := e2\<rparr>)")
         (auto simp: process_enemy_turn_def use_ability_prepend)
  qed
qed

lemma get_loot_prepend:
  "get_loot r (prepend_debuffs ds s)
     = map_sum id (map_prod id (prepend_debuffs ds)) (get_loot r s)"
  by (cases "loot_loop (loot_draw r) 0 (loot_table (enemy s)) [] (player s)")
     (auto simp: get_loot_def)

lemma process_victory_prepend:
  "process_victory r (prepend_debuffs ds s)
     = map_sum id (map_prod id (prepend_debuffs ds)) (process_victory r s)"
proof -
  let ?s2 = "s\<lparr>player := (player s)\<lparr>p_xp := p_xp (player s) + xp_reward (enemy s),
                                      p_gold := p_gold (player s) + gold_reward (enemy s)\<rparr>\<rparr>"
  let ?s3 = "if p_xp_to_next (player ?s2) \<le> p_xp (player ?s2)
             then ?s2\<lparr>player := level_up (player ?s2)\<rparr> else ?s2"
  show ?thesis
    by (cases "get_loot r ?s3")
       (auto simp: process_victory_def Let_def get_loot_prepend)
qed

lemma process_defeat_prepend:
  "process_defeat (prepend_debuffs ds s) = map_prod id (prepend_debuffs ds) (process_defeat s)"
  by (simp add: process_defeat_def)

lemma player_action_prepend:
  "player_action a t i r (prepend_debuffs ds s)
     = map_option (map_sum id (map_prod id (prepend_debuffs ds))) (player_action a t i r s)"
  by (simp add: player_action_def player_attack_prepend player_defend_prepend
        player_ability_prepend player_use_item_prepend player_flee_prepend)

lemma process_player_turn_prepend:
  "process_player_turn a t i r (prepend_debuffs ds s)
     = map_sum id (map_prod id (prepend_debuffs ds)) (process_player_turn a t i r s)"
proof (cases "player_action a t i r s")
  case None
  then show ?thesis
    by (simp add: process_player_turn_def player_action_prepend)
next
  case (Some res)
  show ?thesis
  proof (cases res)
    case (Inl err)
    with Some show ?thesis
      by (simp add: process_player_turn_def player_action_prepend)
  next
    case (Inr ms)
    obtain m s1 where ms: "ms = (m, s1)" by (cases ms)
    show ?thesis
    proof (cases "is_alive (enemy s1)")
      case False
      with Some Inr ms show ?thesis
        by (cases "process_victory r (s1\<lparr>state := VICTORY\<rparr>)")
           (auto simp: process_player_turn_def player_action_prepend process_victory_prepend)
    next
      case True
      with Some Inr ms show ?thesis
        by (cases "process_enemy_turn r (s1\<lparr>state := ENEMY_TURN, turn_count := turn_count s1 + 1\<rparr>)")
           (auto simp: process_player_turn_def player_action_prepend process_enemy_turn_prepend
              process_defeat_prepend Let_def case_prod_beta)
    qed
  qed
qed

text \<open>
  Claim C10. When a call of \<^verbatim>\<open>process_player_turn\<close> returns, the entries that were on
  \<^verbatim>\<open>player_debuffs\<close> are still there, in place and as they were (same duration, none
  removed), followed by the entries \<open>added\<close> in the call; and the call does the same
  whatever the list held before: started with any other list \<open>ds\<close> it returns the same
  texts and the same session, but for that list followed by \<open>added\<close>. So no health is
  ever taken off for a debuff of the player and no debuff of the player ever ticks.
\<close>

theorem player_debuffs_inert:
  assumes "process_player_turn action target item r s = Inr (m, s')"
  shows "\<exists>added. player_debuffs s' = player_debuffs s @ added
           \<and> (\<forall>ds. process_player_turn action target item r (s\<lparr>player_debuffs := ds\<rparr>)
                      = Inr (m, s'\<lparr>player_debuffs := ds @ added\<rparr>))"
proof -
  let ?s0 = "s\<lparr>player_debuffs := []\<rparr>"
  have eq: "prepend_debuffs (player_debuffs s) ?s0 = s"
    by (simp add: prepend_debuffs_def)
  have "process_player_turn action target item r s
               = map_sum id (map_prod id (prepend_debuffs (player_debuffs s)))
                   (process_player_turn action target item r ?s0)"
    using process_player_turn_prepend [of action target item r "player_debuffs s" ?s0]
    by (simp only: eq)
  with assms obtain t where
    t: "process_player_turn action target item r ?s0 = Inr (m, t)"
    and s': "s' = prepend_debuffs (player_debuffs s) t"
    by (cases "process_player_turn action target item r ?s0") auto
  have 1: "player_debuffs s' = player_debuffs s @ player_debuffs t"
    using s' by simp
  have 2: "process_player_turn action target item r (s\<lparr>player_debuffs := ds\<rparr>)
             = Inr (m, s'\<lparr>player_debuffs := ds @ player_debuffs t\<rparr>)" for ds
  proof -
    have start: "prepend_debuffs ds ?s0 = s\<lparr>player_debuffs := ds\<rparr>"
      by (simp add: prepend_debuffs_def)
    have finish: "prepend_debuffs ds t = s'\<lparr>player_debuffs := ds @ player_debuffs t\<rparr>"
      using s' by (simp add: prepend_debuffs_def)
    have "process_player_turn action target item r (prepend_debuffs ds ?s0)
            = map_sum id (map_prod id (prepend_debuffs ds))
                (process_player_turn action target item r ?s0)"
      by (rule process_player_turn_prepend)
    also have "\<dots> = Inr (m, prepend_debuffs ds t)"
      by (simp add: t)
    finally show ?thesis
      by (simp only: start finish)
  qed
  from 1 2 show ?thesis by blast
qed

text \<open>
  The theorem on a session against the dragon whose rotation stands at its fifth entry,
  \<^verbatim>\<open>fear\<close> (no damage, accuracy 60), with \<open>slowed\<close> already on the player: the hero
  defends, the dragon rolls 50, and \<open>frightened\<close> is appended behind \<open>slowed\<close>.
\<close>

theorem player_debuffs_inert_witness:
  "process_player_turn ''defend'' None None (draws\<lparr>enemy_roll := 50\<rparr>)
     ((fight hero ''dragon'' (dragon\<lparr>pattern_index := 4\<rparr>))\<lparr>player_debuffs := [slowed]\<rparr>)
     = Inr ([DefensiveStance,
             Joined [Uses ''Young Dragon'' ''Fearsome Presence'', IsNow ''You'' ''Frightened'']],
            (fight hero ''dragon'' (dragon\<lparr>pattern_index := 5\<rparr>))
              \<lparr>state := ENEMY_TURN, turn_count := 1,
               combat_log := [CombatStarted ''Young Dragon'', Description ''dragon'',
                              DefensiveStance,
                              Joined [Uses ''Young Dragon'' ''Fearsome Presence'',
                                      IsNow ''You'' ''Frightened'']],
               player_buffs := [defending],
               player_debuffs := [slowed, frightened]\<rparr>)
   \<and> (\<exists>added.
          [slowed, frightened] = [slowed] @ added
          \<and> (\<forall>ds. \<exists>s'.
                 process_player_turn ''defend'' None None (draws\<lparr>enemy_roll := 50\<rparr>)
                   ((fight hero ''dragon'' (dragon\<lparr>pattern_index := 4\<rparr>))\<lparr>player_debuffs := ds\<rparr>)
                 = Inr ([DefensiveStance,
                         Joined [Uses ''Young Dragon'' ''Fearsome Presence'',
                                 IsNow ''You'' ''Frightened'']], s')
                 \<and> player_debuffs s' = ds @ added \<and> p_health (player s') = 100))"
proof -
  let ?s = "(fight hero ''dragon'' (dragon\<lparr>pattern_index := 4\<rparr>))\<lparr>player_debuffs := [slowed]\<rparr>"
  let ?m = "[DefensiveStance,
             Joined [Uses ''Young Dragon'' ''Fearsome Presence'', IsNow ''You'' ''Frightened'']]"
  let ?s' = "(fight hero ''dragon'' (dragon\<lparr>pattern_index := 5\<rparr>))
              \<lparr>state := ENEMY_TURN, turn_count := 1,
               combat_log := [CombatStarted ''Young Dragon'', Description ''dragon'',
                              DefensiveStance,
                              Joined [Uses ''Young Dragon'' ''Fearsome Presence'',
                                      IsNow ''You'' ''Frightened'']],
               player_buffs := [defending],
               player_debuffs := [slowed, frightened]\<rparr>"
  have h: "process_player_turn ''defend'' None None (draws\<lparr>enemy_roll := 50\<rparr>) ?s = Inr (?m, ?s')"
    by (simp add: engine_defs sample_defs float_evals slowed_def frightened_def)
  have f: "player_debuffs ?s' = [slowed, frightened]" "player_debuffs ?s = [slowed]"
    "?s\<lparr>player_debuffs := ds\<rparr>
       = (fight hero ''dragon'' (dragon\<lparr>pattern_index := 4\<rparr>))\<lparr>player_debuffs := ds\<rparr>"
    "p_health (player (?s'\<lparr>player_debuffs := ds'\<rparr>)) = 100" for ds ds'
    by (simp_all add: fight_def hero_def)
  from player_debuffs_inert [OF h] obtain added where
    a: "[slowed, frightened] = [slowed] @ added"
    and b: "\<And>ds. process_player_turn ''defend'' None None (draws\<lparr>enemy_roll := 50\<rparr>)
                  ((fight hero ''dragon'' (dragon\<lparr>pattern_index := 4\<rparr>))\<lparr>player_debuffs := ds\<rparr>)
                = Inr (?m, ?s'\<lparr>player_debuffs := ds @ added\<rparr>)"
    unfolding f by blast
  have c: "\<exists>s'. process_player_turn ''defend'' None None (draws\<lparr>enemy_roll := 50\<rparr>)
                  ((fight hero ''dragon'' (dragon\<lparr>pattern_index := 4\<rparr>))\<lparr>player_debuffs := ds\<rparr>)
                = Inr (?m, s')
              \<and> player_debuffs s' = ds @ added \<and> p_health (player s') = 100" for ds
    using b [of ds] f(4) [of "ds @ added"] by (intro exI [of _ "?s'\<lparr>player_debuffs := ds @ added\<rparr>"]) simp
  from h a c show ?thesis by blast
qed

subsection \<open>The enemy's turn does not read the player's buffs\<close>

lemma with_buffs_fields [simp]:
  "player (with_player_buffs bs s) = player s"
  "enemy (with_player_buffs bs s) = enemy s"
  "state (with_player_buffs bs s) = state s"
  "turn_count (with_player_buffs bs s) = turn_count s"
  "combat_log (with_player_buffs bs s) = combat_log s"
  "player_buffs (with_player_buffs bs s) = bs"
  "player_debuffs (with_player_buffs bs s) = player_debuffs s"
  by (simp_all add: with_player_buffs_def)

lemma with_buffs_updates [simp]:
  "(with_player_buffs bs s)\<lparr>player := p\<rparr> = with_player_buffs bs (s\<lparr>player := p\<rparr>)"
  "(with_player_buffs bs s)\<lparr>enemy := e\<rparr> = with_player_buffs bs (s\<lparr>enemy := e\<rparr>)"
  "(with_player_buffs bs s)\<lparr>combat_log := l\<rparr> = with_player_buffs bs (s\<lparr>combat_log := l\<rparr>)"
  "(with_player_buffs bs s)\<lparr>player_debuffs := ds\<rparr> = with_player_buffs bs (s\<lparr>player_debuffs := ds\<rparr>)"
  by (simp_all add: with_player_buffs_def)

lemma add_to_log_with_buffs [simp]:
  "add_to_log m (with_player_buffs bs s) = with_player_buffs bs (add_to_log m s)"
  by (simp add: add_to_log_def Let_def)

lemma apply_effect_with_buffs:
  "apply_effect eff t d p (with_player_buffs bs s)
     = map_prod id (with_player_buffs bs) (apply_effect eff t d p s)"
  by (simp add: apply_effect_def split: option.splits combatant.splits)

lemma use_ability_with_buffs:
  "use_ability u n roll (with_player_buffs bs s)
     = map_sum id (map_prod id (with_player_buffs bs)) (use_ability u n roll s)"
proof (cases "DamageType_by_name
         (upper (case damage_type (abilities_get n) of Some t \<Rightarrow> t | None \<Rightarrow> ''PHYSICAL''))")
  case None
  then show ?thesis by (cases u) (simp_all add: use_ability_def Let_def)
next
  case (Some dt)
  then show ?thesis
    by (cases u; cases "effect (abilities_get n)"; cases "self_effect (abilities_get n)";
        cases "lifesteal (abilities_get n)")
       (simp_all add: use_ability_def Let_def case_prod_beta apply_effect_with_buffs)
qed

text \<open>
  The enemy's turn on a session whose \<^verbatim>\<open>player_buffs\<close> is replaced by any list \<open>bs\<close>
  (with or without the buff of \<^verbatim>\<open>player_defend\<close>) has the outcome it has on the session
  itself: the same exception, or the same text and the same session but for that list. In
  particular the player's health after it is the same.
\<close>

lemma process_enemy_turn_with_buffs:
  "process_enemy_turn r (with_player_buffs bs s)
     = map_sum id (map_prod id (with_player_buffs bs)) (process_enemy_turn r s)"
proof (cases "process_status_effects (enemy s)")
  case (Inl err)
  then show ?thesis by (simp add: process_enemy_turn_def)
next
  case (Inr e1)
  show ?thesis
  proof (cases "get_next_ability e1")
    case (Inl err)
    with Inr show ?thesis by (simp add: process_enemy_turn_def)
  next
    case (Inr nx)
    obtain ab e2 where nx: "nx = (ab, e2)" by (cases nx)
    show ?thesis
      using \<open>process_status_effects (enemy s) = Inr e1\<close> Inr nx
      by (cases "use_ability TheEnemy ab (enemy_roll r) (s\<lparr>enemy := e2\<rparr>)")
         (auto simp: process_enemy_turn_def use_ability_with_buffs)
  qed
qed

subsection \<open>The state a turn ends in\<close>

lemma apply_effect_state: "state (snd (apply_effect eff t d p s)) = state s"
  by (simp add: apply_effect_def split: option.splits combatant.splits)

lemma use_ability_state:
  assumes "use_ability u n roll s = Inr (m, s')"
  shows "state s' = state s"
proof (cases "DamageType_by_name
         (upper (case damage_type (abilities_get n) of Some t \<Rightarrow> t | None \<Rightarrow> ''PHYSICAL''))")
  case None
  with assms show ?thesis
    by (cases u) (auto simp: use_ability_def Let_def split: if_splits)
next
  case (Some dt)
  with assms show ?thesis
    by (cases u; cases "effect (abilities_get n)"; cases "self_effect (abilities_get n)";
        cases "lifesteal (abilities_get n)")
       (auto simp: use_ability_def Let_def case_prod_beta apply_effect_state split: if_splits)
qed

lemma process_enemy_turn_state:
  assumes "process_enemy_turn r s = Inr (m, s')"
  shows "state s' = state s"
  using assms
  by (auto simp: process_enemy_turn_def add_to_log_def Let_def
        split: if_splits sum.splits dest!: use_ability_state)

lemma process_victory_state:
  assumes "process_victory r s = Inr (m, s')"
  shows "state s' = state s"
  using assms
  by (auto simp: process_victory_def get_loot_def add_to_log_def Let_def
        split: if_splits sum.splits prod.splits)

text \<open>
  Whatever the recognised action and the draws, a call of \<^verbatim>\<open>process_player_turn\<close> in
  state \<^verbatim>\<open>PLAYER_TURN\<close> that returns leaves the state \<^verbatim>\<open>ENEMY_TURN\<close>, \<^verbatim>\<open>VICTORY\<close> or
  \<^verbatim>\<open>DEFEAT\<close>: never \<^verbatim>\<open>PLAYER_TURN\<close>, and never \<^verbatim>\<open>FLEE\<close>.
\<close>

lemma process_player_turn_end_state:
  assumes "state s = PLAYER_TURN"
      and "player_action a t i r s \<noteq> None"
      and "process_player_turn a t i r s = Inr (m, s')"
  shows "state s' \<in> {ENEMY_TURN, VICTORY, DEFEAT}"
  using assms
  by (auto simp: process_player_turn_def process_defeat_def add_to_log_def Let_def
        split: if_splits sum.splits prod.splits option.splits
        dest!: process_victory_state process_enemy_turn_state)

end
